theory Spec2Isabelle
  imports Complex_Main
begin

section \<open>Adaptive multi-stream quality control: the decision core\<close>

text \<open>
  A shallow embedding of the two classes that hold the decision logic of the player:
  \<^verbatim>\<open>MultiStreamStatsCollector\<close> (src/js/multi-stream-stats.js) and
  \<^verbatim>\<open>SmartQualityController\<close> (src/js/smart-quality-controller.js).

  Conventions of the embedding.
  \<^item> A JavaScript number is a \<open>real\<close> (an \<open>int\<close> where the code only ever stores
    integers: indices, pixel heights, millisecond clocks). Rounding of IEEE doubles is
    not modelled; \<^verbatim>\<open>Math.round\<close> and \<^verbatim>\<open>toFixed\<close> are modelled on the exact value.
  \<^item> \<^verbatim>\<open>Date.now()\<close> is the argument \<open>now\<close> of every function that reads the clock.
  \<^item> A property that may be absent (\<^verbatim>\<open>undefined\<close>) is an \<open>option\<close>.
  \<^item> A \<^verbatim>\<open>Map\<close> that is iterated is an association list in insertion order; a
    \<^verbatim>\<open>Map\<close> that is only looked up is a partial function.
  \<^item> Quality names and layout names stay strings, since the code looks them up in
    tables and arrays and has a branch for a name that is not there.
  \<^item> The human-readable \<^verbatim>\<open>reason\<close> texts, console output, event listeners, timers and
    the field \<^verbatim>\<open>lastUpdateTime\<close>, which no decision reads, are left out.
\<close>

subsection \<open>JavaScript helpers\<close>

text \<open>\<^verbatim>\<open>Math.round(x)\<close>: the nearest integer, a tie going up.\<close>

definition js_round :: "real \<Rightarrow> int" where
  "js_round x = \<lfloor>x + 1 / 2\<rfloor>"

text \<open>\<^verbatim>\<open>parseFloat(x.toFixed(d))\<close>: the nearest multiple of \<open>10^-d\<close>, a tie going
  away from zero. The rounding is that of the exact value. JavaScript rounds the double
  nearest to it, which differs where that double lies on the other side of a tie: for
  5050 kbps the code computes \<^verbatim>\<open>(5.05).toFixed(1) = "5.0"\<close>, this function 5.1. No
  property below is stated of an input whose rounding is a tie.\<close>

definition toFixed :: "nat \<Rightarrow> real \<Rightarrow> real" where
  "toFixed d x =
     (if x < 0 then - (real_of_int \<lfloor>(- x) * 10 ^ d + 1 / 2\<rfloor> / 10 ^ d)
      else real_of_int \<lfloor>x * 10 ^ d + 1 / 2\<rfloor> / 10 ^ d)"

text \<open>\<^verbatim>\<open>x || d\<close> on a number: the default replaces zero.\<close>

definition or_default :: "real \<Rightarrow> real \<Rightarrow> real" where
  "or_default x d = (if x = 0 then d else x)"

text \<open>\<^verbatim>\<open>Array.prototype.indexOf\<close>: the first position, or \<open>-1\<close>.\<close>

fun indexOf :: "'a list \<Rightarrow> 'a \<Rightarrow> int" where
  "indexOf [] x = - 1"
| "indexOf (y # ys) x =
     (if y = x then 0 else (let i = indexOf ys x in if i < 0 then - 1 else i + 1))"

text \<open>A \<^verbatim>\<open>Map\<close> in insertion order: \<^verbatim>\<open>get\<close>, \<^verbatim>\<open>set\<close> (an existing key keeps its
  place, a new key goes last) and \<^verbatim>\<open>delete\<close>.\<close>

fun map_get :: "('k \<times> 'v) list \<Rightarrow> 'k \<Rightarrow> 'v option" where
  "map_get [] k = None"
| "map_get ((k', v) # m) k = (if k' = k then Some v else map_get m k)"

fun map_set :: "'k \<Rightarrow> 'v \<Rightarrow> ('k \<times> 'v) list \<Rightarrow> ('k \<times> 'v) list" where
  "map_set k v [] = [(k, v)]"
| "map_set k v ((k', v') # m) = (if k' = k then (k, v) # m else (k', v') # map_set k v m)"

fun map_delete :: "'k \<Rightarrow> ('k \<times> 'v) list \<Rightarrow> ('k \<times> 'v) list" where
  "map_delete k [] = []"
| "map_delete k ((k', v') # m) = (if k' = k then m else (k', v') # map_delete k m)"

subsection \<open>Telemetry and per-stream state\<close>

record resolution =
  width :: int
  height :: int

text \<open>\<^verbatim>\<open>streamInfo.currentStats\<close>: the snapshot of \<^verbatim>\<open>WebRTCStatsCollector\<close> with the
  quality verdict added by \<^verbatim>\<open>updateStreamStats\<close>. \<open>packetLossRate\<close> is the numeric
  value of the field (the collector stores the text of \<^verbatim>\<open>toFixed(2)\<close>, which every use
  converts back).\<close>

record stream_stats =
  videoBitrate :: real
  videoFps :: real
  packetLossRate :: real
  jitter :: real
  stats_resolution :: "resolution option"
  stats_timestamp :: int
  qualityStatus :: string
  qualityScore :: real

record quality_event =
  ev_status :: string
  ev_score :: real
  ev_timestamp :: int

record stream_metadata =
  viewIndex :: int
  quality :: string
  priority :: string

record stream_info =
  info_id :: string
  metadata :: stream_metadata
  currentStats :: "stream_stats option"
  lastUpdate :: int
  qualityHistory :: "quality_event list"
  isActive :: bool

text \<open>\<^verbatim>\<open>stats.resolution?.height\<close>\<close>

definition resolution_height :: "stream_stats \<Rightarrow> int option" where
  "resolution_height stats = map_option height (stats_resolution stats)"

text \<open>\<^verbatim>\<open>h || d\<close> on an optional height.\<close>

definition height_or :: "int option \<Rightarrow> int \<Rightarrow> int" where
  "height_or h d = (case h of None \<Rightarrow> d | Some v \<Rightarrow> if v = 0 then d else v)"

subsection \<open>Levels and assessments\<close>

datatype level = Excellent | Good | Fair | Poor

datatype bandwidth_state = Sufficient | Moderate | Overloaded

datatype stability_state = Stable | ModeratelyStable | Unstable

datatype stress_level = Low | Medium | High

datatype advice = ReduceStreamsOrQuality | UseAutoQuality | UseLowerQuality | CheckConnection

record assessment_metrics =
  totalBandwidthUsage :: real
  na_averageQualityScore :: int
  networkStressLevel :: stress_level

record network_assessment =
  overall :: level
  bandwidth :: bandwidth_state
  stability :: stability_state
  na_recommendations :: "advice list"
  na_metrics :: assessment_metrics

record bandwidth_thresholds =
  bw_high :: real
  bw_medium :: real
  bw_low :: real

definition default_bandwidthThresholds :: bandwidth_thresholds where
  "default_bandwidthThresholds = \<lparr>bw_high = 10, bw_medium = 5, bw_low = 2\<rparr>"


section \<open>MultiStreamStatsCollector\<close>

subsection \<open>State\<close>

record rec_metrics =
  m_packetLoss :: real
  m_jitter :: real
  m_fps :: real
  m_qualityScore :: real

text \<open>The objects that \<^verbatim>\<open>generateQualityRecommendations\<close> returns. A per-stream
  recommendation (\<^verbatim>\<open>generateStreamRecommendation\<close>) has a \<^verbatim>\<open>streamId\<close>, both
  qualities and the metrics, and no \<^verbatim>\<open>action\<close> property; the global one
  (\<^verbatim>\<open>generateGlobalOptimization\<close>) has an \<^verbatim>\<open>action\<close> and none of the others.\<close>

record stats_recommendation =
  sr_streamId :: "string option"
  sr_type :: string
  sr_currentQuality :: "string option"
  sr_recommendedQuality :: "string option"
  sr_action :: "string option"
  sr_confidence :: real
  sr_timestamp :: int
  sr_metrics :: "rec_metrics option"

record quality_distribution =
  d_excellent :: nat
  d_good :: nat
  d_fair :: nat
  d_poor :: nat

record aggregated_stats =
  ag_totalStreams :: nat
  totalBandwidth :: real
  averageFps :: int
  averagePacketLoss :: real
  averageJitter :: int
  totalResolution :: resolution
  qualityDistribution :: quality_distribution
  networkUtilization :: nat

record collector =
  historyDuration :: int
  bandwidthThresholds :: bandwidth_thresholds
  streamStats :: "(string \<times> stream_info) list"
  historicalData :: "string \<rightharpoonup> stream_stats list"
  aggregatedStats :: "aggregated_stats option"
  networkAssessment :: "network_assessment option"
  lastRecommendations :: "string \<rightharpoonup> stats_recommendation"

text \<open>The constructor with the default configuration.\<close>

definition new_collector :: collector where
  "new_collector =
     \<lparr>historyDuration = 60000, bandwidthThresholds = default_bandwidthThresholds,
      streamStats = [], historicalData = Map.empty, aggregatedStats = None,
      networkAssessment = None, lastRecommendations = Map.empty\<rparr>"

subsection \<open>Registering, removing and updating streams\<close>

text \<open>The \<^verbatim>\<open>metadata\<close> argument of \<^verbatim>\<open>addStream\<close>: every property may be absent.\<close>

record metadata_arg =
  arg_viewIndex :: "int option"
  arg_quality :: "string option"
  arg_priority :: "string option"

text \<open>\<^verbatim>\<open>{ viewIndex: metadata.viewIndex || 0, ..., ...metadata }\<close>: a property
  that is present wins through the spread, an absent one gets the default.\<close>

definition fill_metadata :: "metadata_arg \<Rightarrow> stream_metadata" where
  "fill_metadata m =
     \<lparr>viewIndex = (case arg_viewIndex m of None \<Rightarrow> 0 | Some v \<Rightarrow> v),
      quality = (case arg_quality m of None \<Rightarrow> ''auto'' | Some v \<Rightarrow> v),
      priority = (case arg_priority m of None \<Rightarrow> ''normal'' | Some v \<Rightarrow> v)\<rparr>"

text \<open>\<^verbatim>\<open>addStream(streamId, statsCollector, metadata)\<close>, lines 88-113. There is no
  look-up of \<open>streamId\<close> before the two \<^verbatim>\<open>set\<close> calls and no \<^verbatim>\<open>throw\<close>.\<close>

definition addStream :: "string \<Rightarrow> metadata_arg \<Rightarrow> int \<Rightarrow> collector \<Rightarrow> collector" where
  "addStream streamId md now c =
     (let streamInfo =
        \<lparr>info_id = streamId, metadata = fill_metadata md, currentStats = None,
         lastUpdate = now, qualityHistory = [], isActive = True\<rparr>
      in c\<lparr>streamStats := map_set streamId streamInfo (streamStats c),
            historicalData := (historicalData c)(streamId \<mapsto> [])\<rparr>)"

text \<open>\<^verbatim>\<open>removeStream(streamId)\<close>, lines 119-127: only \<^verbatim>\<open>streamStats\<close> is touched.\<close>

definition removeStream :: "string \<Rightarrow> collector \<Rightarrow> collector" where
  "removeStream streamId c =
     (case map_get (streamStats c) streamId of
        None \<Rightarrow> c
      | Some streamInfo \<Rightarrow> c\<lparr>streamStats := map_delete streamId (streamStats c)\<rparr>)"

text \<open>\<^verbatim>\<open>addToHistory\<close>, lines 176-187.\<close>

definition addToHistory :: "string \<Rightarrow> stream_stats \<Rightarrow> int \<Rightarrow> collector \<Rightarrow> collector" where
  "addToHistory streamId stats now c =
     (case historicalData c streamId of
        None \<Rightarrow> c
      | Some history \<Rightarrow>
          (let cutoffTime = now - historyDuration c
           in c\<lparr>historicalData := (historicalData c)(streamId \<mapsto>
                 dropWhile (\<lambda>h. stats_timestamp h < cutoffTime) (history @ [stats]))\<rparr>))"

text \<open>\<^verbatim>\<open>updateStreamStats(streamId, {stats, quality})\<close>, lines 134-169; \<open>qstatus\<close> and
  \<open>qscore\<close> are \<^verbatim>\<open>quality.status\<close> and \<^verbatim>\<open>quality.score\<close>.\<close>

definition updateStreamStats ::
  "string \<Rightarrow> stream_stats \<Rightarrow> string \<Rightarrow> real \<Rightarrow> int \<Rightarrow> collector \<Rightarrow> collector" where
  "updateStreamStats streamId stats qstatus qscore now c =
     (case map_get (streamStats c) streamId of
        None \<Rightarrow> c
      | Some streamInfo \<Rightarrow>
          if \<not> isActive streamInfo then c
          else
            (let cur = stats\<lparr>stats_timestamp := now, qualityStatus := qstatus,
                              qualityScore := qscore\<rparr>;
                 hist = qualityHistory streamInfo;
                 changed = (hist = [] \<or> ev_status (last hist) \<noteq> qstatus);
                 pushed = hist @ [\<lparr>ev_status = qstatus, ev_score = qscore, ev_timestamp = now\<rparr>];
                 hist' = (if changed then (if length pushed > 20 then tl pushed else pushed)
                          else hist);
                 streamInfo' = streamInfo\<lparr>currentStats := Some cur, lastUpdate := now,
                                            qualityHistory := hist'\<rparr>
             in addToHistory streamId cur now
                  (c\<lparr>streamStats := map_set streamId streamInfo' (streamStats c)\<rparr>)))"

text \<open>\<^verbatim>\<open>getActiveStreams()\<close>, lines 230-243: the registered streams that are active
  and have a snapshot, in the order of the map. The pushed object is
  \<^verbatim>\<open>{ id: streamId, ...streamInfo }\<close>, whose \<^verbatim>\<open>id\<close> is the one of \<^verbatim>\<open>streamInfo\<close>.\<close>

definition getActiveStreams :: "collector \<Rightarrow> stream_info list" where
  "getActiveStreams c =
     map snd
       (filter (\<lambda>(streamId, streamInfo). isActive streamInfo \<and> currentStats streamInfo \<noteq> None)
          (streamStats c))"

text \<open>\<^verbatim>\<open>getStreamHistory(streamId, duration)\<close>, lines 657-663.\<close>

definition getStreamHistory :: "collector \<Rightarrow> string \<Rightarrow> int \<Rightarrow> int \<Rightarrow> stream_stats list" where
  "getStreamHistory c streamId duration now =
     (case historicalData c streamId of
        None \<Rightarrow> []
      | Some history \<Rightarrow> filter (\<lambda>d. stats_timestamp d \<ge> now - duration) history)"


subsection \<open>Aggregation\<close>

text \<open>Reading a property of \<^verbatim>\<open>stream.currentStats\<close> when it is \<^verbatim>\<open>null\<close> throws.\<close>

datatype js_error = TypeError

definition status_or_fair :: "stream_stats \<Rightarrow> string" where
  "status_or_fair s = (if qualityStatus s = [] then ''fair'' else qualityStatus s)"

definition count_status :: "string \<Rightarrow> stream_stats list \<Rightarrow> nat" where
  "count_status q sts = length (filter (\<lambda>s. status_or_fair s = q) sts)"

definition max_resolution :: "stream_stats list \<Rightarrow> resolution" where
  "max_resolution sts =
     fold (\<lambda>s r. case stats_resolution s of
                    None \<Rightarrow> r
                  | Some res \<Rightarrow> \<lparr>width = max (width r) (width res),
                                 height = max (height r) (height res)\<rparr>)
       sts \<lparr>width = 0, height = 0\<rparr>"

definition utilization :: "real \<Rightarrow> nat" where
  "utilization bandwidthMbps =
     (if bandwidthMbps < 2 then 30 else if bandwidthMbps < 5 then 60
      else if bandwidthMbps < 10 then 80 else 95)"

text \<open>\<^verbatim>\<open>generateAggregatedStats(activeStreams)\<close>, lines 250-325.\<close>

definition generateAggregatedStats :: "stream_info list \<Rightarrow> js_error + aggregated_stats" where
  "generateAggregatedStats activeStreams =
     (case those (map currentStats activeStreams) of
        None \<Rightarrow> Inl TypeError
      | Some sts \<Rightarrow>
          (let n = length sts;
               total = sum_list (map (\<lambda>s. or_default (videoBitrate s) 0) sts);
               totalFps = sum_list (map (\<lambda>s. or_default (videoFps s) 0) sts);
               totalPacketLoss = sum_list (map (\<lambda>s. or_default (packetLossRate s) 0) sts);
               totalJitter = sum_list (map (\<lambda>s. or_default (jitter s) 0) sts)
           in Inr \<lparr>ag_totalStreams = n,
                   totalBandwidth = total,
                   averageFps = (if n > 0 then js_round (totalFps / real n) else 0),
                   averagePacketLoss = (if n > 0 then toFixed 2 (totalPacketLoss / real n) else 0),
                   averageJitter = (if n > 0 then js_round (totalJitter / real n) else 0),
                   totalResolution = max_resolution sts,
                   qualityDistribution =
                     \<lparr>d_excellent = count_status ''excellent'' sts,
                      d_good = count_status ''good'' sts,
                      d_fair = count_status ''fair'' sts,
                      d_poor = count_status ''poor'' sts\<rparr>,
                   networkUtilization = utilization (total / 1000)\<rparr>))"

subsection \<open>Network assessment\<close>

text \<open>The stream filter of lines 374-377.\<close>

definition problematic :: "stream_stats \<Rightarrow> bool" where
  "problematic stats \<longleftrightarrow> packetLossRate stats > 2 \<or> jitter stats > 60"

definition initial_assessment :: network_assessment where
  "initial_assessment =
     \<lparr>overall = Good, bandwidth = Sufficient, stability = Stable, na_recommendations = [],
      na_metrics = \<lparr>totalBandwidthUsage = 0, na_averageQualityScore = 0,
                    networkStressLevel = Low\<rparr>\<rparr>"

text \<open>\<^verbatim>\<open>assessNetworkConditions(activeStreams)\<close>, lines 332-410.\<close>

definition assessNetworkConditions ::
  "bandwidth_thresholds \<Rightarrow> stream_info list \<Rightarrow> js_error + network_assessment" where
  "assessNetworkConditions th activeStreams =
     (if activeStreams = [] then Inr initial_assessment
      else case those (map currentStats activeStreams) of
        None \<Rightarrow> Inl TypeError
      | Some sts \<Rightarrow>
          (let n = length sts;
               total = sum_list (map (\<lambda>s. or_default (videoBitrate s) 0) sts);
               bandwidthMbps = toFixed 1 (total / 1000);
               totalQualityScore = sum_list (map (\<lambda>s. or_default (qualityScore s) 50) sts);
               avg = js_round (totalQualityScore / real n);
               bw = (if bandwidthMbps > bw_high th then Overloaded
                     else if bandwidthMbps > bw_medium th then Moderate else Sufficient);
               recs1 = (if bandwidthMbps > bw_high th then [ReduceStreamsOrQuality]
                        else if bandwidthMbps > bw_medium th then [UseAutoQuality] else []);
               p = length (filter problematic sts);
               st = (if real p > real n * 0.5 then Unstable
                     else if p > 0 then ModeratelyStable else Stable);
               recs2 = (if real p > real n * 0.5 then [UseLowerQuality]
                        else if p > 0 then [CheckConnection] else []);
               stress = (if bandwidthMbps > bw_high th \<or> p > 2 then High
                         else if bandwidthMbps > bw_medium th \<or> p > 0 then Medium else Low);
               ov = (if bw = Overloaded \<or> st = Unstable then Poor
                     else if bw = Moderate \<or> st = ModeratelyStable then Fair
                     else if avg > 80 then Excellent
                     else Good)
           in Inr \<lparr>overall = ov, bandwidth = bw, stability = st,
                   na_recommendations = recs1 @ recs2,
                   na_metrics = \<lparr>totalBandwidthUsage = bandwidthMbps,
                                 na_averageQualityScore = avg,
                                 networkStressLevel = stress\<rparr>\<rparr>))"

subsection \<open>Per-stream recommendations\<close>

text \<open>\<^verbatim>\<open>getQualityFromResolution(height)\<close> of the collector, lines 597-604.\<close>

definition stats_getQualityFromResolution :: "int option \<Rightarrow> string" where
  "stats_getQualityFromResolution h =
     (case h of
        None \<Rightarrow> ''unknown''
      | Some v \<Rightarrow>
          if v = 0 then ''unknown''
          else if v \<ge> 1080 then ''1080p''
          else if v \<ge> 720 then ''720p''
          else if v \<ge> 480 then ''480p''
          else ''low'')"

text \<open>\<^verbatim>\<open>canUpgradeBasedOnBandwidth()\<close>, lines 583-590: it reads the cached aggregate.\<close>

definition canUpgradeBasedOnBandwidth :: "collector \<Rightarrow> bool" where
  "canUpgradeBasedOnBandwidth c =
     (case aggregatedStats c of
        None \<Rightarrow> False
      | Some a \<Rightarrow> totalBandwidth a / 1000 < bw_medium (bandwidthThresholds c))"

text \<open>Truthiness of an optional string: absent and empty are false.\<close>

definition truthy :: "string option \<Rightarrow> bool" where
  "truthy v = (case v of None \<Rightarrow> False | Some t \<Rightarrow> t \<noteq> [])"

text \<open>The decision of lines 454-493: the recommended quality and its confidence.\<close>

definition decide_quality :: "collector \<Rightarrow> stream_info \<Rightarrow> stream_stats \<Rightarrow> (string \<times> real) option" where
  "decide_quality c stream stats =
     (let packetLoss = or_default (packetLossRate stats) 0;
          jit = or_default (jitter stats) 0;
          fps = or_default (videoFps stats) 0;
          score = or_default (qualityScore stats) 50
      in if packetLoss > 3 \<or> jit > 80 \<or> fps < 20 then
           (let currentResolution = height_or (resolution_height stats) 720
            in if currentResolution > 720 then Some (''720p'', 0.8)
               else if currentResolution > 480 then Some (''480p'', 0.9)
               else None)
         else if packetLoss < 1 \<and> jit < 30 \<and> fps > 28 \<and> score > 80 then
           (let currentResolution = height_or (resolution_height stats) 480
            in if currentResolution < 720 \<and> canUpgradeBasedOnBandwidth c
               then Some (''720p'', 0.7)
               else if currentResolution < 1080 \<and> canUpgradeBasedOnBandwidth c
                       \<and> priority (metadata stream) = ''high''
               then Some (''1080p'', 0.6)
               else None)
         else None)"

text \<open>The object literal of lines 496-510. It has no \<^verbatim>\<open>action\<close> property.\<close>

definition quality_switch ::
  "stream_info \<Rightarrow> stream_stats \<Rightarrow> string \<Rightarrow> real \<Rightarrow> int \<Rightarrow> stats_recommendation" where
  "quality_switch stream stats recommendedQuality conf now =
     \<lparr>sr_streamId = Some (info_id stream),
      sr_type = ''quality_switch'',
      sr_currentQuality = Some (stats_getQualityFromResolution (resolution_height stats)),
      sr_recommendedQuality = Some recommendedQuality,
      sr_action = None,
      sr_confidence = conf,
      sr_timestamp = now,
      sr_metrics = Some
        \<lparr>m_packetLoss = or_default (packetLossRate stats) 0,
         m_jitter = or_default (jitter stats) 0,
         m_fps = or_default (videoFps stats) 0,
         m_qualityScore = or_default (qualityScore stats) 50\<rparr>\<rparr>"

text \<open>\<^verbatim>\<open>generateStreamRecommendation(stream)\<close> of the collector, lines 441-519. The
  guard of line 450 reads \<^verbatim>\<open>lastRecommendation?.action\<close>; the object cached at line 513
  is the literal of lines 496-510.\<close>

definition generateStreamRecommendation ::
  "stream_info \<Rightarrow> int \<Rightarrow> collector \<Rightarrow> js_error + (stats_recommendation option \<times> collector)" where
  "generateStreamRecommendation stream now c =
     (let lastRecommendation = lastRecommendations c (info_id stream);
          timeSinceLastRecommendation =
            now - (case lastRecommendation of None \<Rightarrow> 0 | Some r \<Rightarrow> sr_timestamp r)
      in if timeSinceLastRecommendation < 5000
            \<and> (case lastRecommendation of None \<Rightarrow> False | Some r \<Rightarrow> truthy (sr_action r))
         then Inr (None, c)
         else case currentStats stream of
           None \<Rightarrow> Inl TypeError
         | Some stats \<Rightarrow>
             (case decide_quality c stream stats of
                None \<Rightarrow> Inr (None, c)
              | Some (recommendedQuality, conf) \<Rightarrow>
                  (let recommendation = quality_switch stream stats recommendedQuality conf now
                   in Inr (Some recommendation,
                           c\<lparr>lastRecommendations :=
                               (lastRecommendations c)(info_id stream \<mapsto> recommendation)\<rparr>))))"

text \<open>\<^verbatim>\<open>generateGlobalOptimization(activeStreams)\<close>, lines 526-577.\<close>

definition generateGlobalOptimization ::
  "bandwidth_thresholds \<Rightarrow> stream_info list \<Rightarrow> int \<Rightarrow> js_error + stats_recommendation option" where
  "generateGlobalOptimization th activeStreams now =
     (if length activeStreams < 2 then Inr None
      else case those (map currentStats activeStreams) of
        None \<Rightarrow> Inl TypeError
      | Some sts \<Rightarrow>
          (let bandwidthMbps = sum_list (map (\<lambda>s. or_default (videoBitrate s) 0) sts) / 1000;
               global = (\<lambda>act conf.
                 \<lparr>sr_streamId = None, sr_type = ''global_optimization'',
                  sr_currentQuality = None, sr_recommendedQuality = None,
                  sr_action = Some act, sr_confidence = conf, sr_timestamp = now,
                  sr_metrics = None\<rparr>)
           in if bandwidthMbps > bw_high th then Inr (Some (global ''reduce_quality'' 0.9))
              else if bandwidthMbps < bw_low th \<and> length activeStreams \<le> 4 then
                (if filter (\<lambda>s. height_or (resolution_height s) 480 < 720) sts \<noteq> []
                 then Inr (Some (global ''improve_quality'' 0.7))
                 else Inr None)
              else Inr None))"

text \<open>The \<^verbatim>\<open>forEach\<close> of \<^verbatim>\<open>generateQualityRecommendations\<close>, lines 420-425: the cache
  of recommendations is threaded from one stream to the next.\<close>

fun stream_recommendations ::
  "stream_info list \<Rightarrow> int \<Rightarrow> collector \<Rightarrow> js_error + (stats_recommendation list \<times> collector)" where
  "stream_recommendations [] now c = Inr ([], c)"
| "stream_recommendations (stream # rest) now c =
     (case generateStreamRecommendation stream now c of
        Inl e \<Rightarrow> Inl e
      | Inr (r, c') \<Rightarrow>
          (case stream_recommendations rest now c' of
             Inl e \<Rightarrow> Inl e
           | Inr (rs, c'') \<Rightarrow> Inr ((case r of None \<Rightarrow> rs | Some x \<Rightarrow> x # rs), c'')))"

text \<open>\<^verbatim>\<open>generateQualityRecommendations(activeStreams)\<close>, lines 417-434.\<close>

definition generateQualityRecommendations ::
  "stream_info list \<Rightarrow> int \<Rightarrow> collector \<Rightarrow> js_error + (stats_recommendation list \<times> collector)" where
  "generateQualityRecommendations activeStreams now c =
     (case stream_recommendations activeStreams now c of
        Inl e \<Rightarrow> Inl e
      | Inr (rs, c') \<Rightarrow>
          (case generateGlobalOptimization (bandwidthThresholds c') activeStreams now of
             Inl e \<Rightarrow> Inl e
           | Inr g \<Rightarrow> Inr (rs @ (case g of None \<Rightarrow> [] | Some x \<Rightarrow> [x]), c')))"

text \<open>\<^verbatim>\<open>collectAndAnalyze()\<close>, lines 192-224: the new state, and the recommendations of
  the \<^verbatim>\<open>statsUpdate\<close> event when one is emitted.\<close>

definition collectAndAnalyze ::
  "int \<Rightarrow> collector \<Rightarrow> js_error + (stats_recommendation list option \<times> collector)" where
  "collectAndAnalyze now c =
     (let activeStreams = getActiveStreams c
      in if activeStreams = [] then Inr (None, c)
         else case generateAggregatedStats activeStreams of
           Inl e \<Rightarrow> Inl e
         | Inr agg \<Rightarrow>
             (case assessNetworkConditions (bandwidthThresholds c) activeStreams of
                Inl e \<Rightarrow> Inl e
              | Inr na \<Rightarrow>
                  (case generateQualityRecommendations activeStreams now
                          (c\<lparr>aggregatedStats := Some agg, networkAssessment := Some na\<rparr>) of
                     Inl e \<Rightarrow> Inl e
                   | Inr (rs, c') \<Rightarrow> Inr (Some rs, c'))))"

section \<open>SmartQualityController\<close>

subsection \<open>Quality names\<close>

definition qualityOrder :: "string list" where
  "qualityOrder = [''360p'', ''480p'', ''720p'', ''1080p'']"

text \<open>\<^verbatim>\<open>upgradeQuality(currentQuality)\<close>, lines 397-406.\<close>

definition upgradeQuality :: "string \<Rightarrow> string" where
  "upgradeQuality currentQuality =
     (let currentIndex = indexOf qualityOrder currentQuality
      in if currentIndex \<ge> 0 \<and> currentIndex < int (length qualityOrder) - 1
         then qualityOrder ! nat (currentIndex + 1)
         else currentQuality)"

text \<open>\<^verbatim>\<open>downgradeQuality(currentQuality, levels)\<close>, lines 414-424.\<close>

definition downgradeQuality :: "string \<Rightarrow> int \<Rightarrow> string" where
  "downgradeQuality currentQuality levels =
     (let currentIndex = indexOf qualityOrder currentQuality
      in if currentIndex \<ge> 0
         then qualityOrder ! nat (max 0 (currentIndex - levels))
         else currentQuality)"

text \<open>The keys of \<^verbatim>\<open>config.qualityProfiles\<close> and the \<^verbatim>\<open>bitrate\<close> of each, lines 10-39.\<close>

definition qualityProfiles :: "(string \<times> real) list" where
  "qualityProfiles = [(''1080p'', 4000), (''720p'', 2500), (''480p'', 1200), (''360p'', 800)]"

text \<open>\<^verbatim>\<open>validateQuality(quality)\<close>, lines 431-434.\<close>

definition validateQuality :: "string \<Rightarrow> string" where
  "validateQuality q = (if q \<in> set (map fst qualityProfiles) then q else ''480p'')"

text \<open>\<^verbatim>\<open>getQualityFromResolution(height)\<close> of the controller, lines 613-620.\<close>

definition getQualityFromResolution :: "int option \<Rightarrow> string" where
  "getQualityFromResolution h =
     (case h of
        None \<Rightarrow> ''480p''
      | Some v \<Rightarrow>
          if v = 0 then ''480p''
          else if v \<ge> 1080 then ''1080p''
          else if v \<ge> 720 then ''720p''
          else if v \<ge> 480 then ''480p''
          else ''360p'')"

text \<open>\<^verbatim>\<open>stream.currentStats?.resolution?.height\<close>\<close>

definition stream_height :: "stream_info \<Rightarrow> int option" where
  "stream_height stream =
     (case currentStats stream of None \<Rightarrow> None | Some stats \<Rightarrow> resolution_height stats)"


subsection \<open>State\<close>

datatype tier = tier0 | tier1 | tier2

datatype strategy_type =
  emergency_downgrade | conservative_optimization | quality_enhancement | balanced_optimization

text \<open>The recommendation objects of the controller. Every one has a \<^verbatim>\<open>type\<close>, a
  \<^verbatim>\<open>streamIndex\<close> and a \<^verbatim>\<open>recommendedQuality\<close>; the layout advice has no
  \<^verbatim>\<open>confidence\<close> and no \<^verbatim>\<open>currentQuality\<close>.\<close>

record recommendation =
  r_type :: string
  streamIndex :: int
  r_streamId :: "string option"
  currentQuality :: "string option"
  recommendedQuality :: string
  r_tier :: "tier option"
  confidence :: "real option"
  r_timestamp :: "int option"

record performance_metrics =
  pm_averageQualityScore :: int
  problemStreams :: nat
  bandwidthEfficiency :: int

record performance_analysis =
  pa_overall :: level
  issues :: "int list"
  pa_recommendations :: "recommendation list"
  pa_metrics :: performance_metrics

record switch_metrics =
  successfulSwitches :: nat
  failedSwitches :: nat
  userOverrides :: nat

record strategy_info =
  strategy_type :: strategy_type
  strategy_priority :: string
  strategy_confidence :: real

record decision =
  dec_timestamp :: int
  dec_layout :: string
  dec_strategy :: strategy_info
  recommendationCount :: nat
  networkLevel :: "level option"
  performanceLevel :: level

record controller =
  switchCooldown :: int
  networkMonitor :: bool
  currentLayout :: string
  primaryIndex :: int
  lastSwitchTimes :: "string \<rightharpoonup> int"
  performanceMetrics :: switch_metrics
  decisionHistory :: "decision list"

text \<open>The constructor with the default configuration; \<open>networkMonitor\<close> says whether
  \<^verbatim>\<open>setNetworkMonitor\<close> has stored a monitor. The collector that
  \<^verbatim>\<open>setMultiStreamStats\<close> stores is shared with its owner, so the functions below take
  its current state as an argument (\<open>None\<close> when none was set).\<close>

definition new_controller :: controller where
  "new_controller =
     \<lparr>switchCooldown = 10000, networkMonitor = False, currentLayout = ''single'',
      primaryIndex = 0, lastSwitchTimes = Map.empty,
      performanceMetrics = \<lparr>successfulSwitches = 0, failedSwitches = 0, userOverrides = 0\<rparr>,
      decisionHistory = []\<rparr>"

text \<open>\<^verbatim>\<open>setPrimaryIndex(index)\<close>, lines 149-159 (the event it emits is not part of
  the state).\<close>

definition setPrimaryIndex :: "int \<Rightarrow> controller \<Rightarrow> controller" where
  "setPrimaryIndex index ctl = ctl\<lparr>primaryIndex := index\<rparr>"

text \<open>\<^verbatim>\<open>reportSwitchResult(streamId, success, details)\<close>, lines 945-956.\<close>

definition reportSwitchResult :: "string \<Rightarrow> bool \<Rightarrow> int \<Rightarrow> controller \<Rightarrow> controller" where
  "reportSwitchResult streamId success now ctl =
     (let m = performanceMetrics ctl;
          m' = (if success then m\<lparr>successfulSwitches := successfulSwitches m + 1\<rparr>
                else m\<lparr>failedSwitches := failedSwitches m + 1\<rparr>)
      in ctl\<lparr>performanceMetrics := m',
              lastSwitchTimes := (lastSwitchTimes ctl)(streamId \<mapsto> now)\<rparr>)"

text \<open>\<^verbatim>\<open>getHistoricalSuccessRate()\<close>, lines 736-741.\<close>

definition getHistoricalSuccessRate :: "controller \<Rightarrow> real" where
  "getHistoricalSuccessRate ctl =
     (let totalSwitches =
            successfulSwitches (performanceMetrics ctl) + failedSwitches (performanceMetrics ctl)
      in if totalSwitches = 0 then 0.5
         else real (successfulSwitches (performanceMetrics ctl)) / real totalSwitches)"

subsection \<open>Layout tiering\<close>

record layout_strategy =
  maxQuality :: string
  preferredQuality :: string
  primaryStreamQuality :: "string option"

text \<open>\<^verbatim>\<open>config.layoutStrategies\<close>, lines 42-60.\<close>

definition layoutStrategies :: "string \<Rightarrow> layout_strategy option" where
  "layoutStrategies layout =
     (if layout = ''single'' then
        Some \<lparr>maxQuality = ''1080p'', preferredQuality = ''1080p'', primaryStreamQuality = None\<rparr>
      else if layout = ''grid4'' then
        Some \<lparr>maxQuality = ''720p'', preferredQuality = ''720p'',
              primaryStreamQuality = Some ''1080p''\<rparr>
      else if layout = ''grid9'' then
        Some \<lparr>maxQuality = ''480p'', preferredQuality = ''480p'',
              primaryStreamQuality = Some ''720p''\<rparr>
      else None)"

text \<open>\<^verbatim>\<open>determineOptimalQuality(baseQuality, networkAssessment, options)\<close>, lines
  362-390, with the table \<^verbatim>\<open>networkQualityMap\<close>.\<close>

definition adjustment :: "level \<Rightarrow> int" where
  "adjustment l = (case l of Excellent \<Rightarrow> 1 | Good \<Rightarrow> 0 | Fair \<Rightarrow> - 1 | Poor \<Rightarrow> - 2)"

definition canUpgrade :: "level \<Rightarrow> bool" where
  "canUpgrade l = (case l of Excellent \<Rightarrow> True | _ \<Rightarrow> False)"

definition determineOptimalQuality :: "string \<Rightarrow> network_assessment option \<Rightarrow> bool \<Rightarrow> string" where
  "determineOptimalQuality baseQuality na isPrimary =
     (case na of
        None \<Rightarrow> baseQuality
      | Some a \<Rightarrow>
          (let networkLevel = overall a;
               targetQuality =
                 (if adjustment networkLevel > 0 \<and> canUpgrade networkLevel \<and> isPrimary
                  then upgradeQuality baseQuality
                  else if adjustment networkLevel < 0
                  then downgradeQuality baseQuality \<bar>adjustment networkLevel\<bar>
                  else baseQuality)
           in validateQuality targetQuality))"

text \<open>\<^verbatim>\<open>getBestQualityForNetwork(networkAssessment)\<close>, lines 441-458.\<close>

definition getBestQualityForNetwork :: "network_assessment option \<Rightarrow> string" where
  "getBestQualityForNetwork na =
     (case na of
        None \<Rightarrow> ''720p''
      | Some a \<Rightarrow>
          (let bandwidthMbps = or_default (totalBandwidthUsage (na_metrics a)) 0
           in case overall a of
                Excellent \<Rightarrow> (if bandwidthMbps < 5 then ''1080p'' else ''720p'')
              | Good \<Rightarrow> ''720p''
              | Fair \<Rightarrow> ''480p''
              | Poor \<Rightarrow> ''360p''))"

text \<open>\<^verbatim>\<open>calculateQualityTiers(streamCount, networkAssessment)\<close>, lines 303-331: the
  quality of each tier.\<close>

definition calculateQualityTiers :: "nat \<Rightarrow> network_assessment option \<Rightarrow> tier \<Rightarrow> string" where
  "calculateQualityTiers streamCount na t =
     (let network = (case na of None \<Rightarrow> Fair | Some a \<Rightarrow> overall a)
      in if network = Excellent \<or> network = Good
         then (case t of tier0 \<Rightarrow> ''720p'' | tier1 \<Rightarrow> ''480p'' | tier2 \<Rightarrow> ''360p'')
         else (case t of tier0 \<Rightarrow> ''480p'' | tier1 \<Rightarrow> ''360p'' | tier2 \<Rightarrow> ''360p''))"

text \<open>\<^verbatim>\<open>getStreamTier(streamIndex)\<close>, lines 338-353.\<close>

definition getStreamTier :: "controller \<Rightarrow> int \<Rightarrow> tier" where
  "getStreamTier ctl i =
     (if i = primaryIndex ctl then tier0
      else if currentLayout ctl = ''single'' then tier0
      else if currentLayout ctl = ''grid4'' then tier1
      else if currentLayout ctl = ''grid9'' then (if i < 4 then tier1 else tier2)
      else tier1)"

definition layout_rec :: "string \<Rightarrow> int \<Rightarrow> string \<Rightarrow> tier option \<Rightarrow> recommendation" where
  "layout_rec ty i q t =
     \<lparr>r_type = ty, streamIndex = i, r_streamId = None, currentQuality = None,
      recommendedQuality = q, r_tier = t, confidence = None, r_timestamp = None\<rparr>"

text \<open>\<^verbatim>\<open>optimizeGrid4Layout(activeStreams, networkAssessment)\<close>, lines 227-266;
  \<^verbatim>\<open>''1080p''\<close> and \<^verbatim>\<open>''720p''\<close> are \<^verbatim>\<open>primaryStreamQuality\<close> and
  \<^verbatim>\<open>preferredQuality\<close> of the \<^verbatim>\<open>grid4\<close> strategy.\<close>

definition optimizeGrid4Layout ::
  "controller \<Rightarrow> stream_info list \<Rightarrow> network_assessment option \<Rightarrow> recommendation list" where
  "optimizeGrid4Layout ctl activeStreams na =
     (let n = int (length activeStreams);
          primary = min (primaryIndex ctl) (max 0 (n - 1));
          primaryQuality = determineOptimalQuality ''1080p'' na True;
          secondaryQuality = determineOptimalQuality ''720p'' na False
      in (if n > 0 then [layout_rec ''primary_stream_quality'' primary primaryQuality None]
          else [])
         @ map (\<lambda>i. layout_rec ''secondary_stream_quality'' i secondaryQuality None)
             (filter (\<lambda>i. i \<noteq> primary) (map int [0..<min 4 (length activeStreams)])))"

text \<open>\<^verbatim>\<open>optimizeGrid9Layout(activeStreams, networkAssessment)\<close>, lines 274-295. Every
  tier has a quality in the table, so the fall-back \<^verbatim>\<open>|| strategy.preferredQuality\<close>
  is never taken.\<close>

definition optimizeGrid9Layout ::
  "controller \<Rightarrow> stream_info list \<Rightarrow> network_assessment option \<Rightarrow> recommendation list" where
  "optimizeGrid9Layout ctl activeStreams na =
     map (\<lambda>i. let t = getStreamTier ctl i
               in layout_rec ''multi_stream_optimization'' i
                    (calculateQualityTiers (length activeStreams) na t) (Some t))
       (map int [0..<min 9 (length activeStreams)])"

text \<open>\<^verbatim>\<open>generateLayoutOptimizations(layout)\<close>, lines 188-219.\<close>

definition generateLayoutOptimizations ::
  "controller \<Rightarrow> collector option \<Rightarrow> string \<Rightarrow> recommendation list" where
  "generateLayoutOptimizations ctl multiStreamStats layout =
     (case (layoutStrategies layout, multiStreamStats) of
        (Some strategy, Some mss) \<Rightarrow>
          (let activeStreams = getActiveStreams mss;
               na = networkAssessment mss
           in if layout = ''single'' then
                [layout_rec ''single_stream_optimization'' 0 (getBestQualityForNetwork na) None]
              else if layout = ''grid4'' then optimizeGrid4Layout ctl activeStreams na
              else if layout = ''grid9'' then optimizeGrid9Layout ctl activeStreams na
              else [])
      | _ \<Rightarrow> [])"


subsection \<open>Per-stream recommendation and performance analysis\<close>

definition stream_rec ::
  "string \<Rightarrow> int \<Rightarrow> string option \<Rightarrow> string \<Rightarrow> string \<Rightarrow> real \<Rightarrow> int option \<Rightarrow> recommendation" where
  "stream_rec ty i sid cur q conf ts =
     \<lparr>r_type = ty, streamIndex = i, r_streamId = sid, currentQuality = Some cur,
      recommendedQuality = q, r_tier = None, confidence = Some conf, r_timestamp = ts\<rparr>"

text \<open>\<^verbatim>\<open>generateStreamRecommendation(stream, index)\<close> of the controller, lines 558-606.
  It has no \<^verbatim>\<open>type\<close> (\<open>r_type\<close> is empty); the callers that keep it add one.\<close>

definition ctl_generateStreamRecommendation ::
  "controller \<Rightarrow> int \<Rightarrow> stream_info \<Rightarrow> int \<Rightarrow> recommendation option" where
  "ctl_generateStreamRecommendation ctl now stream index =
     (case currentStats stream of
        None \<Rightarrow> None
      | Some stats \<Rightarrow>
          (let lastSwitchTime =
                 (case lastSwitchTimes ctl (info_id stream) of None \<Rightarrow> 0 | Some t \<Rightarrow> t);
               cur = getQualityFromResolution (resolution_height stats);
               mk = (\<lambda>conf. Some (stream_rec [] index (Some (info_id stream)) cur
                                    (downgradeQuality cur 1) conf (Some now)))
           in if now - lastSwitchTime < switchCooldown ctl then None
              else if packetLossRate stats > 3 then mk 0.9
              else if jitter stats > 100 then mk 0.8
              else if videoFps stats < 15 then mk 0.85
              else None))"

text \<open>The test of line 493 for a problem stream.\<close>

definition problem_stream :: "stream_stats \<Rightarrow> bool" where
  "problem_stream stats \<longleftrightarrow>
     packetLossRate stats > 2 \<or> jitter stats > 80 \<or> videoFps stats < 20"

text \<open>The streams that have a snapshot, with their indices.\<close>

definition with_stats :: "stream_info list \<Rightarrow> (int \<times> stream_info \<times> stream_stats) list" where
  "with_stats activeStreams =
     List.map_filter
       (\<lambda>(i, stream). map_option (\<lambda>stats. (int i, stream, stats)) (currentStats stream))
       (enumerate 0 activeStreams)"

text \<open>\<^verbatim>\<open>calculateBandwidthEfficiency(activeStreams)\<close>, lines 529-550.\<close>

definition profile_bitrate :: "string \<Rightarrow> real" where
  "profile_bitrate q = (case map_get qualityProfiles q of None \<Rightarrow> 0 | Some b \<Rightarrow> b)"

definition calculateBandwidthEfficiency :: "stream_info list \<Rightarrow> int" where
  "calculateBandwidthEfficiency activeStreams =
     (let counted = filter (\<lambda>(i, stream, stats). stats_resolution stats \<noteq> None)
                      (with_stats activeStreams);
          actualBandwidth =
            sum_list (map (\<lambda>(i, stream, stats). or_default (videoBitrate stats) 0) counted);
          theoreticalBandwidth =
            sum_list (map (\<lambda>(i, stream, stats).
                        profile_bitrate (getQualityFromResolution (resolution_height stats)))
                      counted)
      in if theoreticalBandwidth = 0 then 100
         else min 100 (js_round (actualBandwidth / theoreticalBandwidth * 100)))"

definition initial_analysis :: performance_analysis where
  "initial_analysis =
     \<lparr>pa_overall = Good, issues = [], pa_recommendations = [],
      pa_metrics = \<lparr>pm_averageQualityScore = 0, problemStreams = 0,
                    bandwidthEfficiency = 0\<rparr>\<rparr>"

text \<open>\<^verbatim>\<open>analyzeCurrentPerformance(activeStreams)\<close>, lines 465-522.\<close>

definition analyzeCurrentPerformance ::
  "controller \<Rightarrow> int \<Rightarrow> stream_info list \<Rightarrow> performance_analysis" where
  "analyzeCurrentPerformance ctl now activeStreams =
     (if activeStreams = [] then initial_analysis
      else
        (let ws = with_stats activeStreams;
             totalQualityScore =
               sum_list (map (\<lambda>(i, stream, stats). or_default (qualityScore stats) 50) ws);
             problems = filter (\<lambda>(i, stream, stats). problem_stream stats) ws;
             n_problems = length problems;
             avg = js_round (totalQualityScore / real (length activeStreams))
         in \<lparr>pa_overall =
                (if n_problems = 0 \<and> avg > 80 then Excellent
                 else if n_problems \<le> 1 \<and> avg > 60 then Good
                 else if n_problems \<le> 2 \<and> avg > 40 then Fair
                 else Poor),
              issues = map (\<lambda>(i, stream, stats). i + 1) problems,
              pa_recommendations =
                List.map_filter
                  (\<lambda>(i, stream, stats). ctl_generateStreamRecommendation ctl now stream i)
                  problems,
              pa_metrics =
                \<lparr>pm_averageQualityScore = avg, problemStreams = n_problems,
                 bandwidthEfficiency = calculateBandwidthEfficiency activeStreams\<rparr>\<rparr>))"

subsection \<open>Strategy\<close>

text \<open>\<^verbatim>\<open>determineOptimizationStrategy(performanceAnalysis, networkAssessment)\<close>, lines
  676-689.\<close>

definition determineOptimizationStrategy ::
  "performance_analysis \<Rightarrow> network_assessment option \<Rightarrow> strategy_type" where
  "determineOptimizationStrategy pa na =
     (let networkLevel = (case na of None \<Rightarrow> Fair | Some a \<Rightarrow> overall a);
          performanceLevel = pa_overall pa
      in if networkLevel = Poor \<or> problemStreams (pa_metrics pa) > 2 then emergency_downgrade
         else if networkLevel = Fair \<or> performanceLevel = Fair then conservative_optimization
         else if networkLevel = Excellent \<and> performanceLevel = Excellent then quality_enhancement
         else balanced_optimization)"

text \<open>\<^verbatim>\<open>calculateOptimizationPriority(performanceAnalysis)\<close>, lines 696-704.\<close>

definition calculateOptimizationPriority :: "performance_analysis \<Rightarrow> string" where
  "calculateOptimizationPriority pa =
     (if problemStreams (pa_metrics pa) > 2 then ''high''
      else if problemStreams (pa_metrics pa) > 0 then ''medium''
      else ''low'')"

text \<open>\<^verbatim>\<open>calculateRecommendationConfidence(performanceAnalysis, networkAssessment)\<close>,
  lines 712-730. With no performance analysis the test of line 716 fails and line 721
  throws.\<close>

definition calculateRecommendationConfidence ::
  "controller \<Rightarrow> performance_analysis option \<Rightarrow> network_assessment option \<Rightarrow> js_error + real" where
  "calculateRecommendationConfidence ctl performanceAnalysis na =
     (let c1 = 0.5 + (if performanceAnalysis \<noteq> None \<and> na \<noteq> None then 0.2 else 0)
      in case performanceAnalysis of
           None \<Rightarrow> Inl TypeError
         | Some pa \<Rightarrow>
             (let c2 = c1 + (if problemStreams (pa_metrics pa) > 0 then 0.2 else 0);
                  successRate = getHistoricalSuccessRate ctl;
                  c3 = c2 + (successRate - 0.5) * 0.2
              in Inr (min 1 (max 0 c3))))"


subsection \<open>Batch recommendations\<close>

record buckets =
  immediate :: "recommendation list"
  gradual :: "recommendation list"
  fallback :: "recommendation list"

record batch =
  b_timestamp :: int
  b_layout :: string
  totalStreams :: nat
  b_networkAssessment :: "network_assessment option"
  performanceAnalysis :: performance_analysis
  recommendations :: buckets
  strategy :: strategy_info

text \<open>\<^verbatim>\<open>generateEmergencyRecommendations\<close>, lines 776-792: what it pushes to
  \<^verbatim>\<open>immediate\<close>.\<close>

definition generateEmergencyRecommendations :: "stream_info list \<Rightarrow> recommendation list" where
  "generateEmergencyRecommendations activeStreams =
     map (\<lambda>(index, stream).
            let cur = getQualityFromResolution (stream_height stream);
                emergencyQuality = downgradeQuality cur 2
            in stream_rec ''emergency_quality_reduction'' (int index) None cur
                 emergencyQuality 0.95 None)
       (enumerate 0 activeStreams)"

text \<open>\<^verbatim>\<open>generateConservativeRecommendations\<close>, lines 799-820: what it pushes to
  \<^verbatim>\<open>gradual\<close>.\<close>

definition generateConservativeRecommendations :: "stream_info list \<Rightarrow> recommendation list" where
  "generateConservativeRecommendations activeStreams =
     map (\<lambda>(i, stream, stats).
            let cur = getQualityFromResolution (resolution_height stats)
            in stream_rec ''conservative_optimization'' i None cur (downgradeQuality cur 1)
                 0.8 None)
       (filter (\<lambda>(i, stream, stats). packetLossRate stats > 2 \<or> jitter stats > 60)
          (with_stats activeStreams))"

text \<open>\<^verbatim>\<open>generateEnhancementRecommendations\<close>, lines 827-851: what it pushes to
  \<^verbatim>\<open>gradual\<close>.\<close>

definition generateEnhancementRecommendations :: "stream_info list \<Rightarrow> recommendation list" where
  "generateEnhancementRecommendations activeStreams =
     map (\<lambda>(i, stream, stats).
            let cur = getQualityFromResolution (resolution_height stats)
            in stream_rec ''quality_enhancement'' i None cur (upgradeQuality cur) 0.7 None)
       (filter (\<lambda>(i, stream, stats).
                  packetLossRate stats < 1 \<and> jitter stats < 30 \<and> videoFps stats > 28
                  \<and> upgradeQuality (getQualityFromResolution (resolution_height stats))
                      \<noteq> getQualityFromResolution (resolution_height stats))
          (with_stats activeStreams))"

text \<open>\<^verbatim>\<open>determineRecommendationType(recommendation)\<close>, lines 881-889, as a test for
  each bucket. A missing confidence compares false with every number.\<close>

definition in_immediate :: "recommendation \<Rightarrow> bool" where
  "in_immediate r = (case confidence r of None \<Rightarrow> False | Some c \<Rightarrow> c > 0.8)"

definition in_gradual :: "recommendation \<Rightarrow> bool" where
  "in_gradual r = (case confidence r of None \<Rightarrow> False | Some c \<Rightarrow> \<not> c > 0.8 \<and> c > 0.6)"

definition in_fallback :: "recommendation \<Rightarrow> bool" where
  "in_fallback r \<longleftrightarrow> \<not> in_immediate r \<and> \<not> in_gradual r"

text \<open>\<^verbatim>\<open>generateBalancedRecommendations\<close>, lines 858-874: the recommendations it
  makes, each with its \<^verbatim>\<open>type\<close> replaced, before they go to their buckets.\<close>

definition generateBalancedRecommendations ::
  "controller \<Rightarrow> int \<Rightarrow> stream_info list \<Rightarrow> recommendation list" where
  "generateBalancedRecommendations ctl now activeStreams =
     map (\<lambda>r. r\<lparr>r_type := ''balanced_optimization''\<rparr>)
       (List.map_filter
          (\<lambda>(index, stream). ctl_generateStreamRecommendation ctl now stream (int index))
          (enumerate 0 activeStreams))"

text \<open>\<^verbatim>\<open>populateRecommendations\<close>, lines 749-769, on the empty buckets of a new
  batch.\<close>

definition populateRecommendations ::
  "controller \<Rightarrow> int \<Rightarrow> strategy_type \<Rightarrow> stream_info list \<Rightarrow> recommendation list \<Rightarrow> buckets" where
  "populateRecommendations ctl now ty activeStreams layoutOptimizations =
     (let b =
        (case ty of
           emergency_downgrade \<Rightarrow>
             \<lparr>immediate = generateEmergencyRecommendations activeStreams,
              gradual = [], fallback = []\<rparr>
         | conservative_optimization \<Rightarrow>
             \<lparr>immediate = [],
              gradual = generateConservativeRecommendations activeStreams, fallback = []\<rparr>
         | quality_enhancement \<Rightarrow>
             \<lparr>immediate = [],
              gradual = generateEnhancementRecommendations activeStreams, fallback = []\<rparr>
         | balanced_optimization \<Rightarrow>
             (let rs = generateBalancedRecommendations ctl now activeStreams
              in \<lparr>immediate = filter in_immediate rs, gradual = filter in_gradual rs,
                  fallback = filter in_fallback rs\<rparr>))
      in b\<lparr>gradual := gradual b @ layoutOptimizations\<rparr>)"

text \<open>\<^verbatim>\<open>recordDecision(decision)\<close>, lines 895-910.\<close>

definition recordDecision :: "batch \<Rightarrow> controller \<Rightarrow> controller" where
  "recordDecision b ctl =
     (let d = \<lparr>dec_timestamp = b_timestamp b, dec_layout = b_layout b,
               dec_strategy = strategy b,
               recommendationCount =
                 length (immediate (recommendations b)) + length (gradual (recommendations b)),
               networkLevel = map_option overall (b_networkAssessment b),
               performanceLevel = pa_overall (performanceAnalysis b)\<rparr>;
          h = decisionHistory ctl @ [d]
      in ctl\<lparr>decisionHistory := (if length h > 100 then tl h else h)\<rparr>)"

text \<open>\<^verbatim>\<open>generateBatchRecommendations()\<close>, lines 626-668.\<close>

definition generateBatchRecommendations ::
  "controller \<Rightarrow> collector option \<Rightarrow> int \<Rightarrow> js_error + (batch option \<times> controller)" where
  "generateBatchRecommendations ctl multiStreamStats now =
     (case multiStreamStats of
        None \<Rightarrow> Inr (None, ctl)
      | Some mss \<Rightarrow>
          if \<not> networkMonitor ctl then Inr (None, ctl)
          else
            (let activeStreams = getActiveStreams mss;
                 na = networkAssessment mss
             in if activeStreams = [] then Inr (None, ctl)
                else
                  (let pa = analyzeCurrentPerformance ctl now activeStreams;
                       layoutOptimizations =
                         generateLayoutOptimizations ctl multiStreamStats (currentLayout ctl);
                       ty = determineOptimizationStrategy pa na
                   in case calculateRecommendationConfidence ctl (Some pa) na of
                        Inl e \<Rightarrow> Inl e
                      | Inr conf \<Rightarrow>
                          (let b = \<lparr>b_timestamp = now, b_layout = currentLayout ctl,
                                    totalStreams = length activeStreams,
                                    b_networkAssessment = na,
                                    performanceAnalysis = pa,
                                    recommendations =
                                      populateRecommendations ctl now ty activeStreams
                                        layoutOptimizations,
                                    strategy =
                                      \<lparr>strategy_type = ty,
                                       strategy_priority = calculateOptimizationPriority pa,
                                       strategy_confidence = conf\<rparr>\<rparr>
                           in Inr (Some b, recordDecision b ctl)))))"


section \<open>Derived notions and example inputs\<close>

text \<open>The number of problem streams among the active streams: those that have a
  snapshot and pass the test of line 493.\<close>

definition count_problem_streams :: "stream_info list \<Rightarrow> nat" where
  "count_problem_streams activeStreams =
     length (filter (\<lambda>s. case currentStats s of None \<Rightarrow> False | Some st \<Rightarrow> problem_stream st)
               activeStreams)"

text \<open>Concrete streams and collectors for the evaluated examples.\<close>

definition sample_stats :: "real \<Rightarrow> real \<Rightarrow> real \<Rightarrow> real \<Rightarrow> int \<Rightarrow> real \<Rightarrow> stream_stats" where
  "sample_stats bitrate fps loss jit h score =
     \<lparr>videoBitrate = bitrate, videoFps = fps, packetLossRate = loss, jitter = jit,
      stats_resolution = Some \<lparr>width = 0, height = h\<rparr>, stats_timestamp = 0,
      qualityStatus = ''good'', qualityScore = score\<rparr>"

definition sample_stream :: "string \<Rightarrow> string \<Rightarrow> stream_stats \<Rightarrow> stream_info" where
  "sample_stream sid prio stats =
     \<lparr>info_id = sid,
      metadata = \<lparr>viewIndex = 0, quality = ''auto'', priority = prio\<rparr>,
      currentStats = Some stats, lastUpdate = 0, qualityHistory = [], isActive = True\<rparr>"

definition sample_collector :: "stream_info list \<Rightarrow> collector" where
  "sample_collector streams =
     new_collector\<lparr>streamStats := map (\<lambda>s. (info_id s, s)) streams\<rparr>"

text \<open>Three streams with heavy loss, at 1080, 720 and 360 lines.\<close>

definition lossy_streams :: "stream_info list" where
  "lossy_streams =
     [sample_stream ''view_0'' ''high'' (sample_stats 2000 12 6 120 1080 40),
      sample_stream ''view_1'' ''normal'' (sample_stats 1500 12 6 120 720 40),
      sample_stream ''view_2'' ''normal'' (sample_stats 500 12 6 120 360 40)]"

text \<open>The test for a problem stream and the decision table as the specification words
  them: loss above 3 percent, jitter above 80 ms or fewer than 20 frames per second; and
  the four labels in the order of the specification.\<close>

definition spec_problem_stream :: "stream_stats \<Rightarrow> bool" where
  "spec_problem_stream stats \<longleftrightarrow>
     packetLossRate stats > 3 \<or> jitter stats > 80 \<or> videoFps stats < 20"

definition spec_problem_count :: "stream_info list \<Rightarrow> nat" where
  "spec_problem_count activeStreams =
     length (filter (\<lambda>s. case currentStats s of None \<Rightarrow> False | Some st \<Rightarrow> spec_problem_stream st)
               activeStreams)"

definition strategy_rule :: "level \<Rightarrow> level \<Rightarrow> nat \<Rightarrow> strategy_type" where
  "strategy_rule network performance problems =
     (if network = Poor \<or> problems > 2 then emergency_downgrade
      else if network = Fair \<or> performance = Fair then conservative_optimization
      else if network = Excellent \<and> performance = Excellent \<and> problems = 0
      then quality_enhancement
      else balanced_optimization)"

text \<open>The level of the network as line 677 reads it: \<^verbatim>\<open>fair\<close> without an assessment.\<close>

definition network_level :: "network_assessment option \<Rightarrow> level" where
  "network_level na = (case na of None \<Rightarrow> Fair | Some a \<Rightarrow> overall a)"

text \<open>Six streams, three of them with a loss of 2.5 percent, and the assessment that
  \<^verbatim>\<open>assessNetworkConditions\<close> makes of them.\<close>

definition mild_streams :: "stream_info list" where
  "mild_streams =
     [sample_stream ''view_0'' ''high'' (sample_stats 500 30 2.5 10 720 90),
      sample_stream ''view_1'' ''normal'' (sample_stats 500 30 2.5 10 720 90),
      sample_stream ''view_2'' ''normal'' (sample_stats 500 30 2.5 10 720 90),
      sample_stream ''view_3'' ''normal'' (sample_stats 500 30 0 10 720 90),
      sample_stream ''view_4'' ''normal'' (sample_stats 500 30 0 10 720 90),
      sample_stream ''view_5'' ''normal'' (sample_stats 500 30 0 10 720 90)]"

definition mild_assessment :: network_assessment where
  "mild_assessment =
     \<lparr>overall = Fair, bandwidth = Sufficient, stability = ModeratelyStable,
      na_recommendations = [CheckConnection],
      na_metrics = \<lparr>totalBandwidthUsage = 3, na_averageQualityScore = 90,
                    networkStressLevel = High\<rparr>\<rparr>"

text \<open>A stream at 1080 lines that loses 5 percent of its packets, the recommendation
  the collector makes for it at time \<open>t\<close>, and the collector that has cached it.\<close>

definition degraded_stream :: stream_info where
  "degraded_stream = sample_stream ''view_0'' ''normal'' (sample_stats 3000 30 5 10 1080 50)"

definition repeat_rec :: "int \<Rightarrow> stats_recommendation" where
  "repeat_rec t =
     \<lparr>sr_streamId = Some ''view_0'', sr_type = ''quality_switch'',
      sr_currentQuality = Some ''1080p'', sr_recommendedQuality = Some ''720p'',
      sr_action = None, sr_confidence = 0.8, sr_timestamp = t,
      sr_metrics = Some \<lparr>m_packetLoss = 5, m_jitter = 10, m_fps = 30, m_qualityScore = 50\<rparr>\<rparr>"

definition after_rec :: "int \<Rightarrow> collector" where
  "after_rec t = new_collector\<lparr>lastRecommendations := [''view_0'' \<mapsto> repeat_rec t]\<rparr>"

text \<open>A stream at 480 lines with good telemetry, and a collector whose cached aggregate
  has a given total bandwidth (in kbps).\<close>

definition good_stream :: stream_info where
  "good_stream = sample_stream ''view_0'' ''high'' (sample_stats 6000 30 0.2 10 480 90)"

definition sample_aggregate :: "real \<Rightarrow> aggregated_stats" where
  "sample_aggregate kbps =
     \<lparr>ag_totalStreams = 1, totalBandwidth = kbps, averageFps = 30, averagePacketLoss = 0.2,
      averageJitter = 10, totalResolution = \<lparr>width = 0, height = 480\<rparr>,
      qualityDistribution = \<lparr>d_excellent = 0, d_good = 1, d_fair = 0, d_poor = 0\<rparr>,
      networkUtilization = utilization (kbps / 1000)\<rparr>"

definition collector_with_bandwidth :: "real \<Rightarrow> collector" where
  "collector_with_bandwidth kbps =
     (sample_collector [good_stream])\<lparr>aggregatedStats := Some (sample_aggregate kbps)\<rparr>"

text \<open>The historical success ratio and the bundle confidence as the specification words
  them: successful over reported switches, one half without history; and one half, plus
  one fifth with both analyses, plus one fifth with a problem stream, plus one fifth of
  the distance of the ratio from one half.\<close>

definition success_ratio :: "controller \<Rightarrow> real" where
  "success_ratio ctl =
     (let s = successfulSwitches (performanceMetrics ctl);
          f = failedSwitches (performanceMetrics ctl)
      in if s + f = 0 then 1 / 2 else real s / real (s + f))"

definition confidence_formula :: "controller \<Rightarrow> bool \<Rightarrow> bool \<Rightarrow> real" where
  "confidence_formula ctl both_present problems =
     1 / 2 + (if both_present then 1 / 5 else 0) + (if problems then 1 / 5 else 0)
       + (success_ratio ctl - 1 / 2) * (1 / 5)"

text \<open>A recommendation's confidence, when it has one, lies between 0 and 1.\<close>

definition confidence_ok :: "recommendation \<Rightarrow> bool" where
  "confidence_ok r = (case confidence r of None \<Rightarrow> True | Some c \<Rightarrow> 0 \<le> c \<and> c \<le> 1)"

text \<open>A recommendation whose quality is at least that of every recommendation of a
  list, all of them being names of \<^verbatim>\<open>qualityOrder\<close>.\<close>

definition highest_in :: "recommendation \<Rightarrow> recommendation list \<Rightarrow> bool" where
  "highest_in r recs \<longleftrightarrow>
     (\<forall>r' \<in> set recs.
        0 \<le> indexOf qualityOrder (recommendedQuality r')
        \<and> indexOf qualityOrder (recommendedQuality r')
            \<le> indexOf qualityOrder (recommendedQuality r))"

text \<open>What a \<^verbatim>\<open>Map\<close> guarantees of \<^verbatim>\<open>streamStats\<close> and \<^verbatim>\<open>addStream\<close> of its values:
  no key twice, and every stream stored under its own id.\<close>

definition registry_ok :: "collector \<Rightarrow> bool" where
  "registry_ok c \<longleftrightarrow>
     distinct (map fst (streamStats c))
     \<and> (\<forall>(k, streamInfo) \<in> set (streamStats c). info_id streamInfo = k)"

text \<open>The entry that \<^verbatim>\<open>addStream\<close> stores.\<close>

definition fresh_info :: "string \<Rightarrow> metadata_arg \<Rightarrow> int \<Rightarrow> stream_info" where
  "fresh_info streamId md now =
     \<lparr>info_id = streamId, metadata = fill_metadata md, currentStats = None,
      lastUpdate = now, qualityHistory = [], isActive = True\<rparr>"

text \<open>A collector with one stream, registered at time 1000, that has reported one
  snapshot at time 1500.\<close>

definition no_metadata :: metadata_arg where
  "no_metadata = \<lparr>arg_viewIndex = None, arg_quality = None, arg_priority = None\<rparr>"

definition registered_collector :: collector where
  "registered_collector =
     updateStreamStats ''view_0'' (sample_stats 3000 30 5 10 1080 50) ''fair'' 50 1500
       (addStream ''view_0'' no_metadata 1000 new_collector)"

definition first_snapshot :: stream_stats where
  "first_snapshot =
     (sample_stats 3000 30 5 10 1080 50)
       \<lparr>stats_timestamp := 1500, qualityStatus := ''fair'', qualityScore := 50\<rparr>"

text \<open>A controller with a network monitor, three successful switches and one failed
  one; and a controller in the four-view grid.\<close>

definition seasoned_controller :: controller where
  "seasoned_controller =
     new_controller\<lparr>networkMonitor := True,
       performanceMetrics :=
         \<lparr>successfulSwitches = 3, failedSwitches = 1, userOverrides = 0\<rparr>\<rparr>"

definition grid4_controller :: controller where
  "grid4_controller = new_controller\<lparr>networkMonitor := True, currentLayout := ''grid4''\<rparr>"

text \<open>The downgrade trigger of line 465, on the metrics that a recommendation records.\<close>

definition calls_for_downgrade :: "rec_metrics \<Rightarrow> bool" where
  "calls_for_downgrade m \<longleftrightarrow> m_packetLoss m > 3 \<or> m_jitter m > 80 \<or> m_fps m < 20"

text \<open>Two streams at 720 lines with good telemetry and 2500 kbps each, the aggregate
  and the assessment that one cycle of the collector computes from them, the collector
  after that cycle, and a controller with a network monitor.\<close>

definition steady_stats :: stream_stats where
  "steady_stats = sample_stats 2500 30 0.2 10 720 90"

definition steady_streams :: "stream_info list" where
  "steady_streams =
     [sample_stream ''view_0'' ''normal'' steady_stats,
      sample_stream ''view_1'' ''normal'' steady_stats]"

definition busy_aggregate :: aggregated_stats where
  "busy_aggregate =
     \<lparr>ag_totalStreams = 2, totalBandwidth = 5000, averageFps = 30, averagePacketLoss = 0.2,
      averageJitter = 10, totalResolution = \<lparr>width = 0, height = 720\<rparr>,
      qualityDistribution = \<lparr>d_excellent = 0, d_good = 2, d_fair = 0, d_poor = 0\<rparr>,
      networkUtilization = 80\<rparr>"

definition busy_assessment :: network_assessment where
  "busy_assessment =
     \<lparr>overall = Excellent, bandwidth = Sufficient, stability = Stable,
      na_recommendations = [],
      na_metrics = \<lparr>totalBandwidthUsage = 5, na_averageQualityScore = 90,
                    networkStressLevel = Low\<rparr>\<rparr>"

definition busy_collector :: collector where
  "busy_collector =
     (sample_collector steady_streams)
       \<lparr>aggregatedStats := Some busy_aggregate, networkAssessment := Some busy_assessment\<rparr>"

definition monitored_controller :: controller where
  "monitored_controller = new_controller\<lparr>networkMonitor := True\<rparr>"

section \<open>Properties\<close>

subsection \<open>Quality names\<close>

lemma getQualityFromResolution_cases:
  "getQualityFromResolution h = ''360p'' \<or> getQualityFromResolution h = ''480p''
   \<or> getQualityFromResolution h = ''720p'' \<or> getQualityFromResolution h = ''1080p''"
  by (simp add: getQualityFromResolution_def split: option.split)

lemma indexOf_qualityOrder [simp]:
  "indexOf qualityOrder ''360p'' = 0"
  "indexOf qualityOrder ''480p'' = 1"
  "indexOf qualityOrder ''720p'' = 2"
  "indexOf qualityOrder ''1080p'' = 3"
  by (simp_all add: qualityOrder_def)

lemma downgradeQuality_values [simp]:
  "downgradeQuality ''360p'' 1 = ''360p''"
  "downgradeQuality ''480p'' 1 = ''360p''"
  "downgradeQuality ''720p'' 1 = ''480p''"
  "downgradeQuality ''1080p'' 1 = ''720p''"
  "downgradeQuality ''360p'' 2 = ''360p''"
  "downgradeQuality ''480p'' 2 = ''360p''"
  "downgradeQuality ''720p'' 2 = ''360p''"
  "downgradeQuality ''1080p'' 2 = ''480p''"
  by (simp_all add: downgradeQuality_def, simp_all add: qualityOrder_def)

lemma upgradeQuality_values [simp]:
  "upgradeQuality ''360p'' = ''480p''"
  "upgradeQuality ''480p'' = ''720p''"
  "upgradeQuality ''720p'' = ''1080p''"
  "upgradeQuality ''1080p'' = ''1080p''"
  by (simp_all add: upgradeQuality_def, simp_all add: qualityOrder_def)

lemma validateQuality_values [simp]:
  "validateQuality ''360p'' = ''360p''"
  "validateQuality ''480p'' = ''480p''"
  "validateQuality ''720p'' = ''720p''"
  "validateQuality ''1080p'' = ''1080p''"
  by (simp_all add: validateQuality_def qualityProfiles_def)

lemma downgrade_two_index:
  "indexOf qualityOrder (getQualityFromResolution h) \<ge> 0 \<and>
   indexOf qualityOrder (downgradeQuality (getQualityFromResolution h) 2)
     = max 0 (indexOf qualityOrder (getQualityFromResolution h) - 2)"
  using getQualityFromResolution_cases [of h] by (elim disjE) simp_all

subsection \<open>The shape of a batch\<close>

lemma with_stats_filter_length:
  "length (filter (\<lambda>(i, stream, stats). P stats)
             (List.map_filter
                (\<lambda>(i, stream). map_option (\<lambda>stats. (int i, stream, stats)) (currentStats stream))
                (enumerate n xs)))
   = length (filter (\<lambda>s. case currentStats s of None \<Rightarrow> False | Some st \<Rightarrow> P st) xs)"
  by (induction xs arbitrary: n) (auto split: option.splits)

lemma problemStreams_analyze:
  "problemStreams (pa_metrics (analyzeCurrentPerformance ctl now xs)) = count_problem_streams xs"
proof (cases "xs = []")
  case True
  then show ?thesis
    by (simp add: analyzeCurrentPerformance_def initial_analysis_def count_problem_streams_def)
next
  case False
  then show ?thesis
    by (simp add: analyzeCurrentPerformance_def Let_def with_stats_def
        with_stats_filter_length count_problem_streams_def)
qed

text \<open>With a network monitor, a collector and at least one active stream,
  \<^verbatim>\<open>generateBatchRecommendations\<close> returns a batch, whose strategy is the one that
  \<^verbatim>\<open>determineOptimizationStrategy\<close> picks.\<close>

lemma batch_returns:
  assumes "networkMonitor ctl" and "getActiveStreams col \<noteq> []"
  shows "\<exists>b ctl'. generateBatchRecommendations ctl (Some col) now = Inr (Some b, ctl')
           \<and> strategy_type (strategy b)
               = determineOptimizationStrategy
                   (analyzeCurrentPerformance ctl now (getActiveStreams col))
                   (networkAssessment col)"
  using assms
  by (simp add: generateBatchRecommendations_def calculateRecommendationConfidence_def Let_def)

lemma batch_parts:
  assumes "generateBatchRecommendations ctl (Some col) now = Inr (Some b, ctl')"
  shows "performanceAnalysis b = analyzeCurrentPerformance ctl now (getActiveStreams col)
         \<and> b_networkAssessment b = networkAssessment col
         \<and> calculateRecommendationConfidence ctl (Some (performanceAnalysis b))
               (b_networkAssessment b) = Inr (strategy_confidence (strategy b))
         \<and> recommendations b =
             populateRecommendations ctl now (strategy_type (strategy b))
               (getActiveStreams col)
               (generateLayoutOptimizations ctl (Some col) (currentLayout ctl))"
  using assms
  by (auto simp add: generateBatchRecommendations_def Let_def split: if_splits sum.splits)

lemma length_emergency:
  "length (generateEmergencyRecommendations xs) = length xs"
  by (simp add: generateEmergencyRecommendations_def)

lemma nth_emergency:
  assumes "i < length xs"
  shows "generateEmergencyRecommendations xs ! i =
     stream_rec ''emergency_quality_reduction'' (int i) None
       (getQualityFromResolution (stream_height (xs ! i)))
       (downgradeQuality (getQualityFromResolution (stream_height (xs ! i))) 2) 0.95 None"
  using assms by (simp add: generateEmergencyRecommendations_def nth_enumerate_eq Let_def)

lemma batch_immediate:
  assumes "generateBatchRecommendations ctl (Some col) now = Inr (Some b, ctl')"
      and "strategy_type (strategy b) = emergency_downgrade"
  shows "immediate (recommendations b) = generateEmergencyRecommendations (getActiveStreams col)"
  using assms
  by (auto simp add: generateBatchRecommendations_def populateRecommendations_def Let_def
      split: if_splits sum.splits)

lemma active_sample: "getActiveStreams (sample_collector lossy_streams) = lossy_streams"
  by (simp add: getActiveStreams_def sample_collector_def lossy_streams_def sample_stream_def)

lemma count_lossy: "count_problem_streams lossy_streams = 3"
  by (simp add: count_problem_streams_def lossy_streams_def sample_stream_def
      sample_stats_def problem_stream_def)

lemma strat_lossy:
  "determineOptimizationStrategy (analyzeCurrentPerformance ctl now lossy_streams) na
     = emergency_downgrade"
  by (simp add: determineOptimizationStrategy_def problemStreams_analyze count_lossy Let_def)

subsection \<open>Emergency downgrade\<close>

text \<open>
  Claim C1. When the strategy of the batch is \<^verbatim>\<open>emergency_downgrade\<close>, the
  \<^verbatim>\<open>immediate\<close> bucket holds exactly one recommendation per active stream, in the
  order of the streams. The recommendation of stream \<open>i\<close> names the stream's current
  tier (the tier of its observed resolution), and its recommended tier lies two places
  below the current one in \<^verbatim>\<open>qualityOrder\<close>, or at the lowest place when fewer than two
  remain. Nothing of the stream but its resolution enters: neither its telemetry, nor
  its cooldown, nor the confidence a per-stream recommendation would have.
\<close>

theorem emergency_two_tiers_down:
  assumes gen: "generateBatchRecommendations ctl (Some col) now = Inr (Some b, ctl')"
      and emergency: "strategy_type (strategy b) = emergency_downgrade"
  shows "length (immediate (recommendations b)) = length (getActiveStreams col) \<and>
         (\<forall>i < length (getActiveStreams col).
            let r = immediate (recommendations b) ! i;
                cur = getQualityFromResolution (stream_height (getActiveStreams col ! i))
            in streamIndex r = int i \<and> currentQuality r = Some cur
               \<and> 0 \<le> indexOf qualityOrder cur
               \<and> indexOf qualityOrder (recommendedQuality r)
                   = max 0 (indexOf qualityOrder cur - 2))"
proof -
  have imm: "immediate (recommendations b)
               = generateEmergencyRecommendations (getActiveStreams col)"
    using gen emergency by (rule batch_immediate)
  show ?thesis
    unfolding imm
    by (simp add: length_emergency nth_emergency stream_rec_def Let_def downgrade_two_index)
qed

text \<open>The three lossy streams at 1080, 720 and 360 lines are sent to 480p, 360p and
  360p.\<close>

theorem emergency_two_tiers_down_witness:
  "\<exists>b ctl'.
     generateBatchRecommendations (new_controller\<lparr>networkMonitor := True\<rparr>)
         (Some (sample_collector lossy_streams)) 1000000 = Inr (Some b, ctl')
     \<and> strategy_type (strategy b) = emergency_downgrade
     \<and> length (immediate (recommendations b)) = 3
     \<and> indexOf qualityOrder (recommendedQuality (immediate (recommendations b) ! 0)) = 1
     \<and> indexOf qualityOrder (recommendedQuality (immediate (recommendations b) ! 1)) = 0
     \<and> indexOf qualityOrder (recommendedQuality (immediate (recommendations b) ! 2)) = 0"
proof -
  let ?ctl = "new_controller\<lparr>networkMonitor := True\<rparr>"
  let ?col = "sample_collector lossy_streams"
  have "networkMonitor ?ctl" and "getActiveStreams ?col \<noteq> []"
    by (simp_all add: active_sample) (simp add: lossy_streams_def)
  from batch_returns [OF this, of 1000000]
  obtain b ctl' where
    gen: "generateBatchRecommendations ?ctl (Some ?col) 1000000 = Inr (Some b, ctl')"
    and ty: "strategy_type (strategy b) = emergency_downgrade"
    unfolding active_sample strat_lossy by blast
  have hs: "getQualityFromResolution (stream_height (lossy_streams ! 0)) = ''1080p''"
    "getQualityFromResolution (stream_height (lossy_streams ! Suc 0)) = ''720p''"
    "getQualityFromResolution (stream_height (lossy_streams ! 2)) = ''360p''"
    by (simp_all add: lossy_streams_def sample_stream_def sample_stats_def stream_height_def
        resolution_height_def getQualityFromResolution_def)
  have three: "length lossy_streams = 3"
    by (simp add: lossy_streams_def)
  from emergency_two_tiers_down [OF gen ty]
  have len: "length (immediate (recommendations b)) = 3"
    and all: "\<And>i. i < 3 \<Longrightarrow>
       indexOf qualityOrder (recommendedQuality (immediate (recommendations b) ! i))
         = max 0 (indexOf qualityOrder
                    (getQualityFromResolution (stream_height (lossy_streams ! i))) - 2)"
    unfolding active_sample three by (simp_all add: Let_def)
  have "indexOf qualityOrder (recommendedQuality (immediate (recommendations b) ! 0)) = 1"
    "indexOf qualityOrder (recommendedQuality (immediate (recommendations b) ! 1)) = 0"
    "indexOf qualityOrder (recommendedQuality (immediate (recommendations b) ! 2)) = 0"
    using all [of 0] all [of 1] all [of 2] by (simp_all add: hs)
  with gen ty len show ?thesis by blast
qed

subsection \<open>The strategy label\<close>

lemma assess_mild:
  "assessNetworkConditions default_bandwidthThresholds mild_streams = Inr mild_assessment"
  by (simp add: assessNetworkConditions_def mild_streams_def sample_stream_def sample_stats_def
      default_bandwidthThresholds_def mild_assessment_def Let_def toFixed_def js_round_def
      or_default_def problematic_def)

lemma pa_overall_excellent_problems:
  "pa_overall (analyzeCurrentPerformance ctl now xs) = Excellent
   \<Longrightarrow> problemStreams (pa_metrics (analyzeCurrentPerformance ctl now xs)) = 0"
  by (cases "xs = []")
     (auto simp add: analyzeCurrentPerformance_def initial_analysis_def Let_def
        split: if_splits)

lemma pa_overall_excellent:
  "pa_overall (analyzeCurrentPerformance ctl now xs) = Excellent \<Longrightarrow> count_problem_streams xs = 0"
  using pa_overall_excellent_problems [of ctl now xs] by (simp add: problemStreams_analyze)

lemma count_mild: "count_problem_streams mild_streams = 3"
  by (simp add: count_problem_streams_def mild_streams_def sample_stream_def
      sample_stats_def problem_stream_def)

lemma spec_count_mild: "spec_problem_count mild_streams = 0"
  by (simp add: spec_problem_count_def mild_streams_def sample_stream_def
      sample_stats_def spec_problem_stream_def)

text \<open>
  Claim C2, as stated, fails. Of the six streams \<open>mild_streams\<close> three lose 2.5 percent
  of their packets, and none has a jitter above 80 ms or fewer than 20 frames per second;
  the network assessment of these streams is \<^verbatim>\<open>fair\<close>. No stream is a problem stream in
  the words of the claim (loss above 3 percent), so the claim's rule gives
  \<^verbatim>\<open>conservative_optimization\<close>; the code counts three problem streams and answers
  \<^verbatim>\<open>emergency_downgrade\<close>.
\<close>

theorem strategy_label_counterexample:
  "determineOptimizationStrategy (analyzeCurrentPerformance new_controller 0 mild_streams)
     (Some mild_assessment) = emergency_downgrade
   \<and> strategy_rule (overall mild_assessment)
        (pa_overall (analyzeCurrentPerformance new_controller 0 mild_streams))
        (spec_problem_count mild_streams) = conservative_optimization"
  by (simp add: determineOptimizationStrategy_def problemStreams_analyze count_mild
      spec_count_mild strategy_rule_def mild_assessment_def)

text \<open>
  Claim C2, amended. The strategy label is \<^verbatim>\<open>emergency_downgrade\<close> exactly when the
  network level is \<^verbatim>\<open>poor\<close> or more than two streams are problem streams, where a problem
  stream has a packet loss above 2 percent (not 3), a jitter above 80 ms or fewer than 20
  frames per second; otherwise it is \<^verbatim>\<open>conservative_optimization\<close> when network or
  performance is \<^verbatim>\<open>fair\<close>, \<^verbatim>\<open>quality_enhancement\<close> when both are \<^verbatim>\<open>excellent\<close> and there
  is no problem stream, and \<^verbatim>\<open>balanced_optimization\<close> in every remaining case. The network
  level is the \<^verbatim>\<open>overall\<close> of the assessment, and \<^verbatim>\<open>fair\<close> when there is no assessment.
\<close>

theorem strategy_label:
  "determineOptimizationStrategy (analyzeCurrentPerformance ctl now activeStreams) na
     = strategy_rule (network_level na)
         (pa_overall (analyzeCurrentPerformance ctl now activeStreams))
         (count_problem_streams activeStreams)"
  using pa_overall_excellent [of ctl now activeStreams]
  by (auto simp add: determineOptimizationStrategy_def strategy_rule_def network_level_def
      problemStreams_analyze Let_def)

theorem strategy_label_witness:
  "determineOptimizationStrategy (analyzeCurrentPerformance new_controller 0 mild_streams)
     (Some mild_assessment) = emergency_downgrade
   \<and> count_problem_streams mild_streams = 3"
  using strategy_label [of new_controller 0 mild_streams "Some mild_assessment"]
  by (simp add: count_mild strategy_rule_def)

subsection \<open>Duplicate recommendations of the collector\<close>

lemma degraded_facts:
  "info_id degraded_stream = ''view_0''"
  "currentStats degraded_stream = Some (sample_stats 3000 30 5 10 1080 50)"
  by (simp_all add: degraded_stream_def sample_stream_def)

lemma decide_degraded:
  "decide_quality c degraded_stream (sample_stats 3000 30 5 10 1080 50) = Some (''720p'', 4 / 5)"
  by (simp add: decide_quality_def sample_stats_def or_default_def height_or_def
      resolution_height_def Let_def)

lemma switch_degraded:
  "quality_switch degraded_stream (sample_stats 3000 30 5 10 1080 50) ''720p'' (4 / 5) t
     = repeat_rec t"
  by (simp add: quality_switch_def degraded_facts repeat_rec_def sample_stats_def
      stats_getQualityFromResolution_def resolution_height_def or_default_def)

lemma action_repeat: "truthy (sr_action (repeat_rec t)) = False"
  by (simp add: repeat_rec_def truthy_def)

text \<open>The cache never holds an object with an \<^verbatim>\<open>action\<close>: the collector starts without
  one and \<^verbatim>\<open>generateStreamRecommendation\<close> stores none.\<close>

lemma cache_without_action:
  assumes "\<And>k r. lastRecommendations c k = Some r \<Longrightarrow> sr_action r = None"
      and "generateStreamRecommendation stream now c = Inr (res, c')"
      and "lastRecommendations c' k = Some r"
  shows "sr_action r = None"
  using assms
  by (auto simp add: generateStreamRecommendation_def quality_switch_def Let_def
      split: if_splits option.splits)

text \<open>So the guard of line 450 never holds, and whenever the telemetry calls for a
  switch the recommendation is made again, whatever the time since the last one.\<close>

lemma guard_needs_action:
  assumes "\<And>r. lastRecommendations c (info_id stream) = Some r \<Longrightarrow> sr_action r = None"
      and "currentStats stream = Some stats"
      and "decide_quality c stream stats = Some (q, conf)"
  shows "\<exists>r c'. generateStreamRecommendation stream now c = Inr (Some r, c')
          \<and> sr_recommendedQuality r = Some q \<and> sr_streamId r = Some (info_id stream)
          \<and> sr_action r = None"
  using assms
  by (auto simp add: generateStreamRecommendation_def quality_switch_def truthy_def Let_def
      split: option.splits)

text \<open>
  Claim C3, evaluated on the code. A stream at 1080 lines loses 5 percent of its packets.
  At time 1000000 the collector, with an empty cache, recommends 720p and caches the
  recommendation. One second later, with nothing reported in between and the same
  telemetry, it recommends 720p for the same stream again: the duplicate is not
  suppressed.
\<close>

theorem duplicate_not_suppressed:
  "generateStreamRecommendation degraded_stream 1000000 new_collector
     = Inr (Some (repeat_rec 1000000), after_rec 1000000)
   \<and> generateStreamRecommendation degraded_stream 1001000 (after_rec 1000000)
     = Inr (Some (repeat_rec 1001000), after_rec 1001000)"
proof
  show "generateStreamRecommendation degraded_stream 1000000 new_collector
     = Inr (Some (repeat_rec 1000000), after_rec 1000000)"
    by (simp add: generateStreamRecommendation_def degraded_facts decide_degraded
        switch_degraded after_rec_def new_collector_def Let_def)
  show "generateStreamRecommendation degraded_stream 1001000 (after_rec 1000000)
     = Inr (Some (repeat_rec 1001000), after_rec 1001000)"
    by (simp add: generateStreamRecommendation_def degraded_facts decide_degraded
        switch_degraded after_rec_def action_repeat Let_def)
qed

subsection \<open>Upgrades and shared bandwidth\<close>

lemma good_facts:
  "info_id good_stream = ''view_0''"
  "currentStats good_stream = Some (sample_stats 6000 30 0.2 10 480 90)"
  "priority (metadata good_stream) = ''high''"
  by (simp_all add: good_stream_def sample_stream_def)

lemma good_telemetry:
  "packetLossRate (sample_stats 6000 30 0.2 10 480 90) < 1"
  "jitter (sample_stats 6000 30 0.2 10 480 90) < 30"
  "videoFps (sample_stats 6000 30 0.2 10 480 90) > 28"
  "qualityScore (sample_stats 6000 30 0.2 10 480 90) > 80"
  by (simp_all add: sample_stats_def)

lemma bandwidth_facts:
  "aggregatedStats (collector_with_bandwidth kbps) = Some (sample_aggregate kbps)"
  "totalBandwidth (sample_aggregate kbps) = kbps"
  "bw_medium (bandwidthThresholds (collector_with_bandwidth kbps)) = 5"
  "lastRecommendations (collector_with_bandwidth kbps) = Map.empty"
  by (simp_all add: collector_with_bandwidth_def sample_collector_def new_collector_def
      sample_aggregate_def default_bandwidthThresholds_def)

text \<open>With head-room (3 Mbps in use, the threshold at 5) the good stream at 480 lines is
  offered 720p.\<close>

lemma upgrade_with_headroom:
  "\<exists>r c'. generateStreamRecommendation good_stream 1000000 (collector_with_bandwidth 3000)
             = Inr (Some r, c')
           \<and> sr_recommendedQuality r = Some ''720p''"
proof -
  have "decide_quality (collector_with_bandwidth 3000) good_stream
          (sample_stats 6000 30 0.2 10 480 90) = Some (''720p'', 7 / 10)"
    by (simp add: decide_quality_def canUpgradeBasedOnBandwidth_def bandwidth_facts
        good_telemetry or_default_def height_or_def resolution_height_def Let_def)
       (simp add: sample_stats_def)
  then show ?thesis
    by (simp add: generateStreamRecommendation_def good_facts bandwidth_facts
        quality_switch_def Let_def)
qed

text \<open>Without head-room every recommendation of the collector comes from the downgrade
  branch; the generator does not change the aggregate it reads.\<close>

lemma generate_keeps_aggregate:
  assumes "generateStreamRecommendation stream now c = Inr (r, c')"
  shows "canUpgradeBasedOnBandwidth c' = canUpgradeBasedOnBandwidth c"
  using assms
  by (auto simp add: generateStreamRecommendation_def canUpgradeBasedOnBandwidth_def Let_def
      split: if_splits option.splits)

lemma generate_under_pressure:
  assumes "\<not> canUpgradeBasedOnBandwidth c"
      and "generateStreamRecommendation stream now c = Inr (Some r, c')"
  shows "\<exists>m. sr_metrics r = Some m \<and> calls_for_downgrade m"
  using assms
  by (auto simp add: generateStreamRecommendation_def decide_quality_def quality_switch_def
      calls_for_downgrade_def Let_def split: if_splits option.splits)

lemma stream_recommendations_under_pressure:
  assumes "\<not> canUpgradeBasedOnBandwidth c"
      and "stream_recommendations streams now c = Inr (rs, c')"
      and "r \<in> set rs"
  shows "\<exists>m. sr_metrics r = Some m \<and> calls_for_downgrade m"
  using assms
proof (induction streams arbitrary: c rs)
  case Nil
  then show ?case by simp
next
  case (Cons s streams)
  from Cons.prems(2) obtain r1 c1 rs1 where
    g: "generateStreamRecommendation s now c = Inr (r1, c1)"
    and rest: "stream_recommendations streams now c1 = Inr (rs1, c')"
    and rs: "rs = (case r1 of None \<Rightarrow> rs1 | Some x \<Rightarrow> x # rs1)"
    by (auto split: sum.splits prod.splits)
  have p1: "\<not> canUpgradeBasedOnBandwidth c1"
    using generate_keeps_aggregate [OF g] Cons.prems(1) by simp
  show ?case
  proof (cases "r \<in> set rs1")
    case True
    with Cons.IH [OF p1 rest] show ?thesis .
  next
    case False
    with Cons.prems(3) rs have "r1 = Some r"
      by (cases r1) auto
    with g Cons.prems(1) show ?thesis
      by (auto dest: generate_under_pressure)
  qed
qed

text \<open>In a whole cycle of \<^verbatim>\<open>collectAndAnalyze\<close>, where the aggregate is computed from
  the active streams just before the recommendations: when the total bandwidth is at or
  above the threshold, every per-stream recommendation of the cycle belongs to a stream
  whose telemetry calls for a downgrade.\<close>

lemma cycle_under_pressure:
  assumes cycle: "collectAndAnalyze now c = Inr (Some rs, c')"
      and agg: "generateAggregatedStats (getActiveStreams c) = Inr agg"
      and pressure: "totalBandwidth agg / 1000 \<ge> bw_medium (bandwidthThresholds c)"
      and r: "r \<in> set rs" "sr_streamId r \<noteq> None"
  shows "\<exists>m. sr_metrics r = Some m \<and> calls_for_downgrade m"
proof -
  from cycle agg obtain na rs1 g where
    recs: "stream_recommendations (getActiveStreams c) now
             (c\<lparr>aggregatedStats := Some agg, networkAssessment := Some na\<rparr>) = Inr (rs1, c')"
    and glob: "generateGlobalOptimization (bandwidthThresholds c') (getActiveStreams c) now
                 = Inr g"
    and rs: "rs = rs1 @ (case g of None \<Rightarrow> [] | Some x \<Rightarrow> [x])"
    by (auto simp add: collectAndAnalyze_def generateQualityRecommendations_def Let_def
        split: if_splits sum.splits prod.splits)
  have "sr_streamId x = None" if "g = Some x" for x
    using glob that
    by (auto simp add: generateGlobalOptimization_def Let_def split: if_splits option.splits)
  with r rs have "r \<in> set rs1"
    by (cases g) auto
  moreover have "\<not> canUpgradeBasedOnBandwidth
                    (c\<lparr>aggregatedStats := Some agg, networkAssessment := Some na\<rparr>)"
    using pressure by (simp add: canUpgradeBasedOnBandwidth_def)
  ultimately show ?thesis
    using recs by (rule stream_recommendations_under_pressure [rotated 2])
qed

lemma steady_fields:
  "videoBitrate steady_stats = 2500" "videoFps steady_stats = 30"
  "packetLossRate steady_stats = 1 / 5" "jitter steady_stats = 10"
  "qualityScore steady_stats = 90" "qualityStatus steady_stats = ''good''"
  "stats_resolution steady_stats = Some \<lparr>width = 0, height = 720\<rparr>"
  "resolution_height steady_stats = Some 720"
  by (simp_all add: steady_stats_def sample_stats_def resolution_height_def)

lemma steady_stream_fields:
  "currentStats (sample_stream sid prio st) = Some st"
  "info_id (sample_stream sid prio st) = sid"
  "isActive (sample_stream sid prio st)"
  "priority (metadata (sample_stream sid prio st)) = prio"
  by (simp_all add: sample_stream_def)

lemma active_steady:
  "getActiveStreams (sample_collector steady_streams) = steady_streams"
  "getActiveStreams busy_collector = steady_streams"
  by (simp_all add: getActiveStreams_def busy_collector_def sample_collector_def
      steady_streams_def steady_stream_fields)

lemma aggregate_steady: "generateAggregatedStats steady_streams = Inr busy_aggregate"
  by (simp add: generateAggregatedStats_def steady_streams_def steady_stream_fields
      steady_fields busy_aggregate_def Let_def or_default_def js_round_def toFixed_def
      max_resolution_def count_status_def status_or_fair_def utilization_def)

lemma assess_steady:
  "assessNetworkConditions default_bandwidthThresholds steady_streams = Inr busy_assessment"
  by (simp add: assessNetworkConditions_def steady_streams_def steady_stream_fields
      steady_fields busy_assessment_def Let_def or_default_def js_round_def toFixed_def
      problematic_def default_bandwidthThresholds_def)

lemma busy_fields:
  "aggregatedStats busy_collector = Some busy_aggregate"
  "networkAssessment busy_collector = Some busy_assessment"
  "bandwidthThresholds busy_collector = default_bandwidthThresholds"
  "lastRecommendations busy_collector = Map.empty"
  "bandwidthThresholds (sample_collector steady_streams) = default_bandwidthThresholds"
  by (simp_all add: busy_collector_def sample_collector_def new_collector_def)

lemma no_headroom: "\<not> canUpgradeBasedOnBandwidth busy_collector"
  by (simp add: canUpgradeBasedOnBandwidth_def busy_fields busy_aggregate_def
      default_bandwidthThresholds_def)

lemma decide_steady: "decide_quality busy_collector s steady_stats = None"
  using no_headroom
  by (simp add: decide_quality_def steady_fields or_default_def Let_def)

lemma stream_recs_steady:
  "stream_recommendations steady_streams 0 busy_collector = Inr ([], busy_collector)"
  by (simp add: steady_streams_def generateStreamRecommendation_def steady_stream_fields
      busy_fields decide_steady Let_def)

lemma global_steady:
  "generateGlobalOptimization default_bandwidthThresholds steady_streams 0 = Inr None"
  by (simp add: generateGlobalOptimization_def steady_streams_def steady_stream_fields
      steady_fields or_default_def default_bandwidthThresholds_def Let_def)

lemma cycle_steady:
  "collectAndAnalyze 0 (sample_collector steady_streams) = Inr (Some [], busy_collector)"
proof -
  have c: "(sample_collector steady_streams)
             \<lparr>aggregatedStats := Some busy_aggregate, networkAssessment := Some busy_assessment\<rparr>
           = busy_collector"
    by (simp add: busy_collector_def)
  have ne: "steady_streams \<noteq> []" by (simp add: steady_streams_def)
  show ?thesis
    by (simp add: collectAndAnalyze_def active_steady ne aggregate_steady assess_steady
        busy_fields c generateQualityRecommendations_def stream_recs_steady global_steady
        Let_def)
qed

lemma count_steady: "count_problem_streams steady_streams = 0"
  by (simp add: count_problem_streams_def steady_streams_def steady_stream_fields
      steady_fields problem_stream_def)

lemma with_stats_steady:
  "with_stats steady_streams
     = [(0, sample_stream ''view_0'' ''normal'' steady_stats, steady_stats),
        (1, sample_stream ''view_1'' ''normal'' steady_stats, steady_stats)]"
  by (simp add: with_stats_def steady_streams_def List.map_filter_def enumerate_eq_zip
      steady_stream_fields upt_conv_Cons)

lemma pa_overall_steady:
  "pa_overall (analyzeCurrentPerformance ctl now steady_streams) = Excellent"
proof -
  have ne: "steady_streams \<noteq> []" and len: "length steady_streams = 2"
    by (simp_all add: steady_streams_def)
  have none: "filter (\<lambda>(i, stream, stats). problem_stream stats) (with_stats steady_streams) = []"
    by (simp add: with_stats_steady problem_stream_def steady_fields)
  show ?thesis
    by (simp add: analyzeCurrentPerformance_def ne len Let_def none)
       (simp add: with_stats_steady steady_fields or_default_def js_round_def)
qed

lemma strategy_steady:
  "determineOptimizationStrategy (analyzeCurrentPerformance ctl now steady_streams)
     (Some busy_assessment) = quality_enhancement"
  by (simp add: determineOptimizationStrategy_def problemStreams_analyze count_steady
      pa_overall_steady busy_assessment_def Let_def)

lemma enhancement_steady:
  "generateEnhancementRecommendations steady_streams
     = [stream_rec ''quality_enhancement'' 0 None ''720p'' ''1080p'' (7 / 10) None,
        stream_rec ''quality_enhancement'' 1 None ''720p'' ''1080p'' (7 / 10) None]"
  by (simp add: generateEnhancementRecommendations_def with_stats_steady steady_fields
      getQualityFromResolution_def Let_def)

lemma layout_steady:
  "generateLayoutOptimizations monitored_controller (Some busy_collector) ''single''
     = [layout_rec ''single_stream_optimization'' 0 ''720p'' None]"
  by (simp add: generateLayoutOptimizations_def layoutStrategies_def busy_fields
      getBestQualityForNetwork_def busy_assessment_def or_default_def Let_def)

text \<open>
  Claim C5, as stated, fails. Two streams at 720 lines have good telemetry and use
  2500 kbps each, so the aggregate of the cycle is 5000 kbps, exactly the \<^verbatim>\<open>medium\<close>
  threshold of 5 Mbps. The collector has no head-room and recommends nothing in that
  cycle. The network assessment of the same cycle is \<^verbatim>\<open>excellent\<close> (5.0 is not above 5),
  the performance is \<^verbatim>\<open>excellent\<close>, so the controller picks \<^verbatim>\<open>quality_enhancement\<close>, and
  \<^verbatim>\<open>generateEnhancementRecommendations\<close>, which reads no bandwidth, puts an upgrade from
  720p to 1080p for each of the two streams into the \<^verbatim>\<open>gradual\<close> bucket.
\<close>

theorem upgrade_under_pressure_counterexample:
  "collectAndAnalyze 0 (sample_collector steady_streams) = Inr (Some [], busy_collector)
   \<and> aggregatedStats busy_collector = Some busy_aggregate
   \<and> totalBandwidth busy_aggregate / 1000 = bw_medium (bandwidthThresholds busy_collector)
   \<and> \<not> canUpgradeBasedOnBandwidth busy_collector
   \<and> (case generateBatchRecommendations monitored_controller (Some busy_collector) 0 of
        Inr (Some b, ctl') \<Rightarrow>
          strategy_type (strategy b) = quality_enhancement
          \<and> gradual (recommendations b)
              = [stream_rec ''quality_enhancement'' 0 None ''720p'' ''1080p'' (7 / 10) None,
                 stream_rec ''quality_enhancement'' 1 None ''720p'' ''1080p'' (7 / 10) None,
                 layout_rec ''single_stream_optimization'' 0 ''720p'' None]
      | _ \<Rightarrow> False)"
proof -
  have m: "networkMonitor monitored_controller"
    and l: "currentLayout monitored_controller = ''single''"
    by (simp_all add: monitored_controller_def new_controller_def)
  have ne: "getActiveStreams busy_collector \<noteq> []"
    by (simp add: active_steady steady_streams_def)
  from batch_returns [OF m ne, of 0] obtain b ctl' where
    gen: "generateBatchRecommendations monitored_controller (Some busy_collector) 0
            = Inr (Some b, ctl')"
    and ty: "strategy_type (strategy b) = quality_enhancement"
    unfolding active_steady busy_fields strategy_steady by blast
  from batch_parts [OF gen]
  have "recommendations b =
          populateRecommendations monitored_controller 0 quality_enhancement steady_streams
            (generateLayoutOptimizations monitored_controller (Some busy_collector) ''single'')"
    unfolding ty active_steady l by blast
  then have g: "gradual (recommendations b)
              = [stream_rec ''quality_enhancement'' 0 None ''720p'' ''1080p'' (7 / 10) None,
                 stream_rec ''quality_enhancement'' 1 None ''720p'' ''1080p'' (7 / 10) None,
                 layout_rec ''single_stream_optimization'' 0 ''720p'' None]"
    by (simp add: populateRecommendations_def enhancement_steady layout_steady)
  have p: "totalBandwidth busy_aggregate / 1000 = bw_medium (bandwidthThresholds busy_collector)"
    by (simp add: busy_fields busy_aggregate_def default_bandwidthThresholds_def)
  show ?thesis
    using cycle_steady busy_fields(1) p no_headroom by (simp add: gen ty g)
qed

text \<open>
  Claim C5, amended. A stream whose latest telemetry is good (loss below 1 percent,
  jitter below 30 ms, more than 28 frames per second, quality score above 80) gets no
  recommendation from the per-stream generator of the collector, hence no upgrade from
  it, while the total bandwidth of the collector's cached aggregate, in Mbps, is at or
  above the \<^verbatim>\<open>medium\<close> threshold of the configuration; the cache of recommendations is
  left as it was. The guard is the collector's: the batch of the controller does not read
  it.
\<close>

theorem no_upgrade_under_bandwidth_pressure:
  assumes stats: "currentStats stream = Some stats"
      and good: "packetLossRate stats < 1" "jitter stats < 30" "videoFps stats > 28"
                "qualityScore stats > 80"
      and agg: "aggregatedStats c = Some agg"
      and pressure: "totalBandwidth agg / 1000 \<ge> bw_medium (bandwidthThresholds c)"
  shows "generateStreamRecommendation stream now c = Inr (None, c)"
proof -
  have no: "\<not> canUpgradeBasedOnBandwidth c"
    using agg pressure by (simp add: canUpgradeBasedOnBandwidth_def)
  have "decide_quality c stream stats = None"
    using good no by (simp add: decide_quality_def or_default_def Let_def)
  then show ?thesis
    using stats by (simp add: generateStreamRecommendation_def Let_def)
qed

text \<open>At exactly 5 Mbps, the threshold, the same stream is offered nothing.\<close>

theorem no_upgrade_under_bandwidth_pressure_witness:
  "generateStreamRecommendation good_stream 1000000 (collector_with_bandwidth 5000)
     = Inr (None, collector_with_bandwidth 5000)"
proof -
  have "totalBandwidth (sample_aggregate 5000) / 1000
          \<ge> bw_medium (bandwidthThresholds (collector_with_bandwidth 5000))"
    by (simp add: bandwidth_facts)
  from no_upgrade_under_bandwidth_pressure
         [OF good_facts(2) good_telemetry bandwidth_facts(1) this]
  show ?thesis .
qed

subsection \<open>Network assessment\<close>

lemma those_stats:
  assumes "\<forall>s \<in> set activeStreams. currentStats s \<noteq> None"
  shows "\<exists>sts. those (map currentStats activeStreams) = Some sts"
  using assms by (induction activeStreams) (auto split: option.splits)

text \<open>
  Claim C6. For streams that all have a snapshot (as the active streams have),
  \<^verbatim>\<open>assessNetworkConditions\<close> returns an assessment, and its overall level is the worst
  case of the two axes: \<^verbatim>\<open>poor\<close> when the bandwidth is overloaded or the stability is
  unstable; otherwise \<^verbatim>\<open>fair\<close> when either is moderate; otherwise \<^verbatim>\<open>excellent\<close> when the
  average quality score is above 80, and \<^verbatim>\<open>good\<close> when it is not.
\<close>

theorem network_overall_worst_case:
  assumes "\<forall>s \<in> set activeStreams. currentStats s \<noteq> None"
  shows "\<exists>a. assessNetworkConditions th activeStreams = Inr a
           \<and> overall a =
               (if bandwidth a = Overloaded \<or> stability a = Unstable then Poor
                else if bandwidth a = Moderate \<or> stability a = ModeratelyStable then Fair
                else if na_averageQualityScore (na_metrics a) > 80 then Excellent
                else Good)"
proof (cases "activeStreams = []")
  case True
  then show ?thesis
    by (simp add: assessNetworkConditions_def initial_assessment_def)
next
  case False
  from those_stats [OF assms] obtain sts
    where "those (map currentStats activeStreams) = Some sts" ..
  with False show ?thesis
    by (simp add: assessNetworkConditions_def Let_def)
qed

text \<open>The six streams of \<open>mild_streams\<close>: enough bandwidth, moderate stability, hence
  \<^verbatim>\<open>fair\<close> in spite of an average score of 90.\<close>

theorem network_overall_worst_case_witness:
  "\<exists>a. assessNetworkConditions default_bandwidthThresholds mild_streams = Inr a
        \<and> bandwidth a = Sufficient \<and> stability a = ModeratelyStable
        \<and> na_averageQualityScore (na_metrics a) = 90 \<and> overall a = Fair"
proof -
  have "\<forall>s \<in> set mild_streams. currentStats s \<noteq> None"
    by (simp add: mild_streams_def sample_stream_def)
  from network_overall_worst_case [OF this, of default_bandwidthThresholds]
  show ?thesis
    by (simp add: assess_mild mild_assessment_def)
qed

subsection \<open>Reported switch results\<close>

lemma rate_is_ratio: "getHistoricalSuccessRate ctl = success_ratio ctl"
  by (simp add: getHistoricalSuccessRate_def success_ratio_def Let_def)

lemma ratio_bounds: "0 \<le> success_ratio ctl \<and> success_ratio ctl \<le> 1"
  by (simp add: success_ratio_def Let_def divide_le_eq_1)

lemma failure_lowers_rate:
  "getHistoricalSuccessRate (reportSwitchResult sid False now ctl) \<le> getHistoricalSuccessRate ctl"
proof -
  let ?s = "successfulSwitches (performanceMetrics ctl)"
  let ?f = "failedSwitches (performanceMetrics ctl)"
  have after: "getHistoricalSuccessRate (reportSwitchResult sid False now ctl)
                 = real ?s / real (?s + ?f + 1)"
    by (simp add: getHistoricalSuccessRate_def reportSwitchResult_def Let_def)
  show ?thesis
  proof (cases "?s + ?f = 0")
    case True
    then show ?thesis
      unfolding after by (simp add: getHistoricalSuccessRate_def Let_def)
  next
    case False
    then have "real ?s / real (?s + ?f + 1) \<le> real ?s / real (?s + ?f)"
      by (intro divide_left_mono) auto
    with False show ?thesis
      unfolding after by (simp add: getHistoricalSuccessRate_def Let_def)
  qed
qed

lemma retry_blocked:
  assumes "now' - now < switchCooldown ctl"
  shows "ctl_generateStreamRecommendation
           (reportSwitchResult (info_id stream) success now ctl) now' stream i = None"
  using assms
  by (simp add: ctl_generateStreamRecommendation_def reportSwitchResult_def Let_def
      split: option.splits)

text \<open>
  Claim C4, as stated, fails. A new controller has no last-switch time for
  \<^verbatim>\<open>view_0\<close>, and at time 21000 it recommends a downgrade for the lossy stream. After a
  failed switch is reported at time 20000 the last-switch time of \<^verbatim>\<open>view_0\<close> is 20000,
  and at time 21000 the cooldown of 10 s withholds the recommendation.
\<close>

theorem report_failure_counterexample:
  "lastSwitchTimes new_controller ''view_0'' = None
   \<and> lastSwitchTimes (reportSwitchResult ''view_0'' False 20000 new_controller) ''view_0''
       = Some 20000
   \<and> ctl_generateStreamRecommendation new_controller 21000 degraded_stream 0 \<noteq> None
   \<and> ctl_generateStreamRecommendation
        (reportSwitchResult ''view_0'' False 20000 new_controller) 21000 degraded_stream 0
       = None"
  by (simp add: reportSwitchResult_def new_controller_def ctl_generateStreamRecommendation_def
      degraded_facts Let_def sample_stats_def)

text \<open>
  Claim C4, amended. When a switch outcome is reported for a stream, its last-switch
  time is set to the current time whether the switch succeeded or failed, and the times
  of the other streams are unchanged; so for the length of the cooldown the controller
  makes no per-stream recommendation for it, after a failure as after a success. On
  failure only the tally of failed switches is incremented, on success only the tally of
  successful ones.
\<close>

theorem report_switch_result:
  "lastSwitchTimes (reportSwitchResult sid success now ctl) sid = Some now
   \<and> (\<forall>k. k \<noteq> sid \<longrightarrow>
          lastSwitchTimes (reportSwitchResult sid success now ctl) k = lastSwitchTimes ctl k)
   \<and> successfulSwitches (performanceMetrics (reportSwitchResult sid success now ctl))
        = successfulSwitches (performanceMetrics ctl) + (if success then 1 else 0)
   \<and> failedSwitches (performanceMetrics (reportSwitchResult sid success now ctl))
        = failedSwitches (performanceMetrics ctl) + (if success then 0 else 1)
   \<and> (\<forall>now' stream i. info_id stream = sid \<and> now' - now < switchCooldown ctl \<longrightarrow>
          ctl_generateStreamRecommendation (reportSwitchResult sid success now ctl)
            now' stream i = None)"
  using retry_blocked [of _ now ctl _ success]
  by (auto simp add: reportSwitchResult_def Let_def)

theorem report_switch_result_witness:
  "lastSwitchTimes (reportSwitchResult ''view_0'' False 20000 new_controller) ''view_0''
     = Some 20000
   \<and> lastSwitchTimes (reportSwitchResult ''view_0'' False 20000 new_controller) ''view_1''
     = None
   \<and> failedSwitches (performanceMetrics
        (reportSwitchResult ''view_0'' False 20000 new_controller)) = 1
   \<and> successfulSwitches (performanceMetrics
        (reportSwitchResult ''view_0'' False 20000 new_controller)) = 0
   \<and> ctl_generateStreamRecommendation
        (reportSwitchResult ''view_0'' False 20000 new_controller) 21000 degraded_stream 0
       = None"
proof -
  note r = report_switch_result [of "''view_0''" False 20000 new_controller]
  have a: "lastSwitchTimes new_controller ''view_1'' = None"
    "failedSwitches (performanceMetrics new_controller) = 0"
    "successfulSwitches (performanceMetrics new_controller) = 0"
    "switchCooldown new_controller = 10000"
    by (simp_all add: new_controller_def)
  from r have "ctl_generateStreamRecommendation
        (reportSwitchResult ''view_0'' False 20000 new_controller) 21000 degraded_stream 0
       = None"
    by (simp add: a degraded_facts)
  moreover from r have "lastSwitchTimes
        (reportSwitchResult ''view_0'' False 20000 new_controller) ''view_1'' = None"
    by (simp add: a)
  ultimately show ?thesis using r by (simp add: a)
qed

subsection \<open>Confidence\<close>

lemma formula_bounds:
  "0 \<le> confidence_formula ctl p q \<and> confidence_formula ctl p q \<le> 1"
  using ratio_bounds [of ctl] by (auto simp add: confidence_formula_def field_simps)

lemma confidence_value:
  "calculateRecommendationConfidence ctl (Some pa) na
     = Inr (confidence_formula ctl (na \<noteq> None) (0 < problemStreams (pa_metrics pa)))"
proof -
  have "calculateRecommendationConfidence ctl (Some pa) na
          = Inr (min 1 (max 0
                  (confidence_formula ctl (na \<noteq> None) (0 < problemStreams (pa_metrics pa)))))"
    by (simp add: calculateRecommendationConfidence_def rate_is_ratio Let_def
        confidence_formula_def)
  with formula_bounds [of ctl "na \<noteq> None" "0 < problemStreams (pa_metrics pa)"]
  show ?thesis by simp
qed

lemma conf_ctl_rec:
  "ctl_generateStreamRecommendation ctl now s i = Some r \<Longrightarrow> confidence_ok r"
  by (auto simp add: ctl_generateStreamRecommendation_def stream_rec_def confidence_ok_def
      Let_def split: option.splits if_splits)

lemma conf_generators:
  "r \<in> set (generateEmergencyRecommendations xs) \<Longrightarrow> confidence_ok r"
  "r \<in> set (generateConservativeRecommendations xs) \<Longrightarrow> confidence_ok r"
  "r \<in> set (generateEnhancementRecommendations xs) \<Longrightarrow> confidence_ok r"
  "r \<in> set (generateLayoutOptimizations ctl mss layout) \<Longrightarrow> confidence_ok r"
     apply (auto simp add: generateEmergencyRecommendations_def stream_rec_def Let_def
      confidence_ok_def)[1]
    apply (auto simp add: generateConservativeRecommendations_def stream_rec_def Let_def
      confidence_ok_def)[1]
   apply (auto simp add: generateEnhancementRecommendations_def stream_rec_def Let_def
      confidence_ok_def)[1]
  apply (auto simp add: generateLayoutOptimizations_def optimizeGrid4Layout_def
      optimizeGrid9Layout_def layout_rec_def Let_def confidence_ok_def
      split: option.splits if_splits)
  done

lemma conf_balanced:
  assumes "r \<in> set (generateBalancedRecommendations ctl now xs)"
  shows "confidence_ok r"
proof -
  from assms obtain n s r0 where
    "ctl_generateStreamRecommendation ctl now s (int n) = Some r0"
    and r: "r = r0\<lparr>r_type := ''balanced_optimization''\<rparr>"
    by (auto simp add: generateBalancedRecommendations_def List.map_filter_def)
  then have "confidence_ok r0" by (auto dest: conf_ctl_rec)
  with r show ?thesis by (simp add: confidence_ok_def)
qed

lemma conf_buckets:
  assumes "r \<in> set (immediate (populateRecommendations ctl now ty xs lo))
             \<union> set (gradual (populateRecommendations ctl now ty xs lo))
             \<union> set (fallback (populateRecommendations ctl now ty xs lo))"
      and "\<And>r. r \<in> set lo \<Longrightarrow> confidence_ok r"
  shows "confidence_ok r"
  using assms conf_generators(1-3) [of r xs] conf_balanced [of r ctl now xs]
  by (cases ty) (auto simp add: populateRecommendations_def Let_def)

text \<open>
  Claim C7. The confidence of the bundle is one half, plus one fifth when the network
  assessment is present beside the performance analysis, plus one fifth when there is a
  problem stream, plus one fifth of the difference between the historical success ratio
  and one half (the ratio being successful over reported switches, and one half when none
  was reported); the clamp to the unit interval never changes this sum, which lies
  between 0 and 1. In a batch the confidence of the strategy is this value for the
  collector's assessment and the active streams, and every recommendation of the three
  buckets that carries a confidence has it between 0 and 1.
\<close>

theorem bundle_confidence:
  "calculateRecommendationConfidence ctl (Some pa) na
     = Inr (confidence_formula ctl (na \<noteq> None) (0 < problemStreams (pa_metrics pa)))
   \<and> 0 \<le> confidence_formula ctl (na \<noteq> None) (0 < problemStreams (pa_metrics pa))
   \<and> confidence_formula ctl (na \<noteq> None) (0 < problemStreams (pa_metrics pa)) \<le> 1
   \<and> (\<forall>col now b ctl'.
         generateBatchRecommendations ctl (Some col) now = Inr (Some b, ctl') \<longrightarrow>
           strategy_confidence (strategy b)
             = confidence_formula ctl (networkAssessment col \<noteq> None)
                 (0 < count_problem_streams (getActiveStreams col))
           \<and> (\<forall>r \<in> set (immediate (recommendations b)) \<union> set (gradual (recommendations b))
                     \<union> set (fallback (recommendations b)). confidence_ok r))"
proof -
  have fn: "calculateRecommendationConfidence ctl (Some pa) na
     = Inr (confidence_formula ctl (na \<noteq> None) (0 < problemStreams (pa_metrics pa)))"
    by (rule confidence_value)
  have batch: "strategy_confidence (strategy b)
             = confidence_formula ctl (networkAssessment col \<noteq> None)
                 (0 < count_problem_streams (getActiveStreams col))
           \<and> (\<forall>r \<in> set (immediate (recommendations b)) \<union> set (gradual (recommendations b))
                     \<union> set (fallback (recommendations b)). confidence_ok r)"
    if gen: "generateBatchRecommendations ctl (Some col) now = Inr (Some b, ctl')"
    for col now b ctl'
  proof -
    from batch_parts [OF gen]
    have pa: "performanceAnalysis b = analyzeCurrentPerformance ctl now (getActiveStreams col)"
      and na: "b_networkAssessment b = networkAssessment col"
      and cf: "calculateRecommendationConfidence ctl (Some (performanceAnalysis b))
                 (b_networkAssessment b) = Inr (strategy_confidence (strategy b))"
      and rs: "recommendations b =
                 populateRecommendations ctl now (strategy_type (strategy b))
                   (getActiveStreams col)
                   (generateLayoutOptimizations ctl (Some col) (currentLayout ctl))"
      by blast+
    have "strategy_confidence (strategy b)
            = confidence_formula ctl (b_networkAssessment b \<noteq> None)
                (0 < problemStreams (pa_metrics (performanceAnalysis b)))"
      using cf unfolding confidence_value by simp
    then have "strategy_confidence (strategy b)
            = confidence_formula ctl (networkAssessment col \<noteq> None)
                (0 < count_problem_streams (getActiveStreams col))"
      unfolding pa na problemStreams_analyze .
    moreover have "confidence_ok r"
      if "r \<in> set (immediate (recommendations b)) \<union> set (gradual (recommendations b))
                     \<union> set (fallback (recommendations b))" for r
    proof -
      have lo: "confidence_ok r'"
        if "r' \<in> set (generateLayoutOptimizations ctl (Some col) (currentLayout ctl))" for r'
        using that by (rule conf_generators(4))
      from that [unfolded rs] show ?thesis
        by (rule conf_buckets) (rule lo)
    qed
    ultimately show ?thesis by blast
  qed
  from fn formula_bounds batch show ?thesis by blast
qed

text \<open>Three successes and one failure, three lossy streams: 0.95 with a network
  assessment, and 0.75 in the batch of a collector that has none yet.\<close>

theorem bundle_confidence_witness:
  "calculateRecommendationConfidence seasoned_controller
       (Some (analyzeCurrentPerformance seasoned_controller 0 lossy_streams))
       (Some mild_assessment) = Inr (19 / 20)
   \<and> (\<exists>b ctl'. generateBatchRecommendations seasoned_controller
                   (Some (sample_collector lossy_streams)) 0 = Inr (Some b, ctl')
        \<and> strategy_confidence (strategy b) = 3 / 4)"
proof -
  let ?pa = "analyzeCurrentPerformance seasoned_controller 0 lossy_streams"
  note t = bundle_confidence [of seasoned_controller ?pa "Some mild_assessment"]
  have ratio: "success_ratio seasoned_controller = 3 / 4"
    by (simp add: success_ratio_def seasoned_controller_def new_controller_def)
  have f1: "confidence_formula seasoned_controller True True = 19 / 20"
    and f2: "confidence_formula seasoned_controller False True = 3 / 4"
    by (simp_all add: confidence_formula_def ratio)
  from t have v: "calculateRecommendationConfidence seasoned_controller (Some ?pa)
                    (Some mild_assessment) = Inr (19 / 20)"
    by (simp add: problemStreams_analyze count_lossy f1)
  have "networkMonitor seasoned_controller"
    and "getActiveStreams (sample_collector lossy_streams) \<noteq> []"
    by (simp_all add: seasoned_controller_def new_controller_def active_sample)
       (simp add: lossy_streams_def)
  from batch_returns [OF this, of 0] obtain b ctl' where
    gen: "generateBatchRecommendations seasoned_controller
            (Some (sample_collector lossy_streams)) 0 = Inr (Some b, ctl')"
    by blast
  have none: "networkAssessment (sample_collector lossy_streams) = None"
    by (simp add: sample_collector_def new_collector_def)
  from t gen have "strategy_confidence (strategy b)
      = confidence_formula seasoned_controller
          (networkAssessment (sample_collector lossy_streams) \<noteq> None)
          (0 < count_problem_streams (getActiveStreams (sample_collector lossy_streams)))"
    by blast
  then have "strategy_confidence (strategy b) = 3 / 4"
    by (simp add: none active_sample count_lossy f2)
  with v gen show ?thesis by blast
qed

subsection \<open>The primary stream in a grid\<close>

text \<open>In the four-view grid the quality of the primary stream is never below that of
  the others, whatever the network.\<close>

lemma grid4_qualities:
  "0 \<le> indexOf qualityOrder (determineOptimalQuality ''720p'' na False)
   \<and> indexOf qualityOrder (determineOptimalQuality ''720p'' na False)
       \<le> indexOf qualityOrder (determineOptimalQuality ''1080p'' na True)"
proof (cases na)
  case None
  then show ?thesis by (simp add: determineOptimalQuality_def)
next
  case (Some a)
  then show ?thesis
    by (cases "overall a")
       (simp_all add: determineOptimalQuality_def adjustment_def canUpgrade_def Let_def)
qed

text \<open>In the nine-view grid \<^verbatim>\<open>tier0\<close> has the highest quality of the three tiers.\<close>

lemma tier_qualities:
  "0 \<le> indexOf qualityOrder (calculateQualityTiers n na t)
   \<and> indexOf qualityOrder (calculateQualityTiers n na t)
       \<le> indexOf qualityOrder (calculateQualityTiers n na tier0)"
  by (cases t) (simp_all add: calculateQualityTiers_def Let_def)

lemma primary_tier: "getStreamTier (setPrimaryIndex i ctl) i = tier0"
  by (simp add: getStreamTier_def setPrimaryIndex_def)

lemma grid4_primary:
  assumes "0 \<le> i" and "i < int (length xs)" and "primaryIndex ctl = i"
  shows "(\<exists>r \<in> set (optimizeGrid4Layout ctl xs na). streamIndex r = i)
         \<and> (\<forall>r \<in> set (optimizeGrid4Layout ctl xs na).
               streamIndex r = i \<longrightarrow> highest_in r (optimizeGrid4Layout ctl xs na))"
proof -
  have p: "min (primaryIndex ctl) (max 0 (int (length xs) - 1)) = i"
    using assms by simp
  have n: "0 < int (length xs)" using assms by linarith
  have eq: "optimizeGrid4Layout ctl xs na =
              layout_rec ''primary_stream_quality'' i
                (determineOptimalQuality ''1080p'' na True) None
              # map (\<lambda>j. layout_rec ''secondary_stream_quality'' j
                           (determineOptimalQuality ''720p'' na False) None)
                  (filter (\<lambda>j. j \<noteq> i) (map int [0..<min 4 (length xs)]))"
    unfolding optimizeGrid4Layout_def Let_def p using n by simp
  show ?thesis
    unfolding eq using grid4_qualities [of na]
    by (auto simp add: layout_rec_def highest_in_def)
qed

lemma grid9_primary:
  assumes "0 \<le> i" and "i < int (length xs)" and "i < 9" and "primaryIndex ctl = i"
  shows "(\<exists>r \<in> set (optimizeGrid9Layout ctl xs na). streamIndex r = i)
         \<and> (\<forall>r \<in> set (optimizeGrid9Layout ctl xs na).
               streamIndex r = i \<longrightarrow> highest_in r (optimizeGrid9Layout ctl xs na))"
proof -
  have t: "getStreamTier ctl i = tier0"
    using assms by (simp add: getStreamTier_def)
  have "nat i < min 9 (length xs)" using assms by (simp add: nat_less_iff)
  then have ex: "\<exists>r \<in> set (optimizeGrid9Layout ctl xs na). streamIndex r = i"
    using assms(1)
    by (auto simp add: optimizeGrid9Layout_def layout_rec_def Let_def image_iff
        intro!: bexI [of _ "nat i"])
  have all: "\<forall>r \<in> set (optimizeGrid9Layout ctl xs na).
               streamIndex r = i \<longrightarrow> highest_in r (optimizeGrid9Layout ctl xs na)"
    using tier_qualities [of "length xs" na] t
    by (auto simp add: optimizeGrid9Layout_def layout_rec_def Let_def highest_in_def)
  from ex all show ?thesis ..
qed

lemma active_mild: "getActiveStreams (sample_collector mild_streams) = mild_streams"
  by (simp add: getActiveStreams_def sample_collector_def mild_streams_def sample_stream_def)

text \<open>
  Claim C8. In the four-view and the nine-view grid, after \<^verbatim>\<open>setPrimaryIndex(i)\<close> the
  stream index \<open>i\<close> is in \<^verbatim>\<open>tier0\<close> whatever its position, and when \<open>i\<close> is the index of
  an active stream that the layout covers (below the number of active streams, and
  below 9 in the nine-view grid) the layout recommendations contain one for index \<open>i\<close>,
  and the quality of every recommendation for index \<open>i\<close> is the highest of all the
  recommendations of that layout.
\<close>

theorem primary_gets_highest_tier:
  assumes layout: "currentLayout ctl = ''grid4'' \<or> currentLayout ctl = ''grid9''"
      and shown: "0 \<le> i" "i < int (length (getActiveStreams col))"
                 "currentLayout ctl = ''grid9'' \<longrightarrow> i < 9"
  shows "getStreamTier (setPrimaryIndex i ctl) i = tier0
         \<and> (\<exists>r \<in> set (generateLayoutOptimizations (setPrimaryIndex i ctl) (Some col)
                          (currentLayout ctl)). streamIndex r = i)
         \<and> (\<forall>r \<in> set (generateLayoutOptimizations (setPrimaryIndex i ctl) (Some col)
                          (currentLayout ctl)).
               streamIndex r = i \<longrightarrow>
               highest_in r (generateLayoutOptimizations (setPrimaryIndex i ctl) (Some col)
                               (currentLayout ctl)))"
proof -
  have pi: "primaryIndex (setPrimaryIndex i ctl) = i"
    by (simp add: setPrimaryIndex_def)
  from layout show ?thesis
  proof
    assume g4: "currentLayout ctl = ''grid4''"
    have "generateLayoutOptimizations (setPrimaryIndex i ctl) (Some col) ''grid4''
            = optimizeGrid4Layout (setPrimaryIndex i ctl) (getActiveStreams col)
                (networkAssessment col)"
      by (simp add: generateLayoutOptimizations_def layoutStrategies_def Let_def)
    then show ?thesis
      using grid4_primary [OF shown(1,2) pi] primary_tier [of i ctl] g4 by simp
  next
    assume g9: "currentLayout ctl = ''grid9''"
    have "generateLayoutOptimizations (setPrimaryIndex i ctl) (Some col) ''grid9''
            = optimizeGrid9Layout (setPrimaryIndex i ctl) (getActiveStreams col)
                (networkAssessment col)"
      by (simp add: generateLayoutOptimizations_def layoutStrategies_def Let_def)
    moreover have "i < 9" using shown(3) g9 by simp
    ultimately show ?thesis
      using grid9_primary [OF shown(1,2) _ pi] primary_tier [of i ctl] g9 by simp
  qed
qed

text \<open>Six streams in the four-view grid, the third made primary.\<close>

theorem primary_gets_highest_tier_witness:
  "getStreamTier (setPrimaryIndex 2 grid4_controller) 2 = tier0
   \<and> (\<exists>r \<in> set (generateLayoutOptimizations (setPrimaryIndex 2 grid4_controller)
                   (Some (sample_collector mild_streams)) ''grid4'').
        streamIndex r = 2
        \<and> highest_in r (generateLayoutOptimizations (setPrimaryIndex 2 grid4_controller)
                          (Some (sample_collector mild_streams)) ''grid4''))"
proof -
  have l: "currentLayout grid4_controller = ''grid4''"
    by (simp add: grid4_controller_def new_controller_def)
  have "currentLayout grid4_controller = ''grid4'' \<or> currentLayout grid4_controller = ''grid9''"
    and "(0::int) \<le> 2"
    and "2 < int (length (getActiveStreams (sample_collector mild_streams)))"
    and "currentLayout grid4_controller = ''grid9'' \<longrightarrow> (2::int) < 9"
    by (simp_all add: l active_mild) (simp add: mild_streams_def)
  from primary_gets_highest_tier [OF this]
  show ?thesis unfolding l by blast
qed

subsection \<open>The registry of streams\<close>

lemma map_get_set: "map_get (map_set k v m) k' = (if k' = k then Some v else map_get m k')"
  by (induction k v m rule: map_set.induct) auto

lemma map_get_None: "map_get m k = None \<longleftrightarrow> k \<notin> set (map fst m)"
  by (induction m k rule: map_get.induct) auto

lemma map_get_mem: "map_get m k = Some v \<Longrightarrow> (k, v) \<in> set m"
  by (induction m k rule: map_get.induct) (auto split: if_splits)

lemma keys_map_set:
  "map fst (map_set k v m) = (if k \<in> set (map fst m) then map fst m else map fst m @ [k])"
  by (induction k v m rule: map_set.induct) (auto simp add: image_iff)

lemma set_map_set: "set (map_set k v m) \<subseteq> insert (k, v) (set m)"
  by (induction k v m rule: map_set.induct) auto

lemma set_map_delete: "set (map_delete k m) \<subseteq> set m"
  by (induction k m rule: map_delete.induct) auto

lemma keys_map_delete: "distinct (map fst m) \<Longrightarrow> distinct (map fst (map_delete k m))"
proof (induction k m rule: map_delete.induct)
  case (1 k)
  then show ?case by simp
next
  case (2 k k' v' m)
  have "fst ` set (map_delete k m) \<subseteq> fst ` set m"
    using set_map_delete [of k m] by blast
  with 2 show ?case by auto
qed

lemma absent_after_delete:
  "distinct (map fst m) \<Longrightarrow> k \<notin> set (map fst (map_delete k m))"
proof (induction k m rule: map_delete.induct)
  case (1 k)
  then show ?case by simp
next
  case (2 k k' v' m)
  then show ?case by auto
qed

lemma map_get_delete_other:
  "k' \<noteq> k \<Longrightarrow> map_get (map_delete k m) k' = map_get m k'"
  by (induction k m rule: map_delete.induct) auto

lemma map_delete_absent: "k \<notin> set (map fst m) \<Longrightarrow> map_delete k m = m"
  by (induction k m rule: map_delete.induct) auto

lemma registry_new: "registry_ok new_collector"
  by (simp add: registry_ok_def new_collector_def)

lemma registry_set:
  assumes "registry_ok c" and "info_id v = k"
  shows "registry_ok (c\<lparr>streamStats := map_set k v (streamStats c)\<rparr>)"
proof -
  have "set (map_set k v (streamStats c)) \<subseteq> insert (k, v) (set (streamStats c))"
    by (rule set_map_set)
  with assms show ?thesis
    by (auto simp add: registry_ok_def keys_map_set)
qed

lemma registry_addStream: "registry_ok c \<Longrightarrow> registry_ok (addStream streamId md now c)"
  using registry_set [of c "fresh_info streamId md now" streamId]
  by (simp add: addStream_def fresh_info_def Let_def registry_ok_def)

lemma registry_removeStream: "registry_ok c \<Longrightarrow> registry_ok (removeStream streamId c)"
  using set_map_delete [of streamId "streamStats c"]
  by (auto simp add: registry_ok_def removeStream_def keys_map_delete split: option.splits)

lemma registry_addToHistory: "registry_ok c \<Longrightarrow> registry_ok (addToHistory streamId s t c)"
  by (simp add: registry_ok_def addToHistory_def Let_def split: option.splits)

lemma registry_updateStreamStats:
  assumes "registry_ok c"
  shows "registry_ok (updateStreamStats streamId stats qstatus qscore now c)"
proof (cases "map_get (streamStats c) streamId")
  case None
  with assms show ?thesis by (simp add: updateStreamStats_def)
next
  case (Some streamInfo)
  have idk: "info_id streamInfo = streamId"
    using assms map_get_mem [OF Some] by (auto simp add: registry_ok_def)
  show ?thesis
    using Some assms idk
    by (auto simp add: updateStreamStats_def Let_def intro!: registry_addToHistory registry_set)
qed

lemma registered_facts:
  "map_get (streamStats registered_collector) ''view_0''
     = Some ((fresh_info ''view_0'' no_metadata 1000)
              \<lparr>currentStats := Some first_snapshot, lastUpdate := 1500,
               qualityHistory := [\<lparr>ev_status = ''fair'', ev_score = 50, ev_timestamp = 1500\<rparr>]\<rparr>)"
  "historicalData registered_collector ''view_0'' = Some [first_snapshot]"
  "map fst (streamStats registered_collector) = [''view_0'']"
  by (simp_all add: registered_collector_def updateStreamStats_def addStream_def
      addToHistory_def new_collector_def first_snapshot_def fresh_info_def Let_def
      sample_stats_def)

subsection \<open>Registering a stream twice\<close>

text \<open>
  Claim C9, as stated, fails. The stream \<^verbatim>\<open>view_0\<close> is registered and active, with one
  snapshot and one sample of history. Registering \<^verbatim>\<open>view_0\<close> again returns normally, and
  afterwards the entry of \<^verbatim>\<open>view_0\<close> is a fresh one: the snapshot is gone, the stream is
  no longer among the active streams and its history is empty.
\<close>

theorem addStream_replaces_counterexample:
  "map_get (streamStats registered_collector) ''view_0'' \<noteq> None
   \<and> length (getActiveStreams registered_collector) = 1
   \<and> map_get (streamStats (addStream ''view_0'' no_metadata 2000 registered_collector))
        ''view_0'' = Some (fresh_info ''view_0'' no_metadata 2000)
   \<and> getActiveStreams (addStream ''view_0'' no_metadata 2000 registered_collector) = []
   \<and> historicalData (addStream ''view_0'' no_metadata 2000 registered_collector) ''view_0''
       = Some []"
  by (simp add: registered_collector_def updateStreamStats_def addStream_def
      addToHistory_def new_collector_def fresh_info_def getActiveStreams_def Let_def)

text \<open>
  Claim C9, amended. Registering a stream never fails, whether or not its id is
  registered already: \<^verbatim>\<open>addStream\<close> stores a fresh entry under the id (no snapshot, an
  empty quality history, active) in place of any existing one, and an empty history. The
  entries and histories of the other streams are unchanged, and the order of the registry
  is unchanged when the id was registered (a new id goes last).
\<close>

theorem addStream_replaces:
  "map_get (streamStats (addStream streamId md now c)) streamId
     = Some (fresh_info streamId md now)
   \<and> historicalData (addStream streamId md now c) streamId = Some []
   \<and> (\<forall>k. k \<noteq> streamId \<longrightarrow>
          map_get (streamStats (addStream streamId md now c)) k = map_get (streamStats c) k
          \<and> historicalData (addStream streamId md now c) k = historicalData c k)
   \<and> map fst (streamStats (addStream streamId md now c))
       = (if streamId \<in> set (map fst (streamStats c)) then map fst (streamStats c)
          else map fst (streamStats c) @ [streamId])"
proof -
  have registry: "streamStats (addStream streamId md now c)
                    = map_set streamId (fresh_info streamId md now) (streamStats c)"
    and histories: "historicalData (addStream streamId md now c)
                    = (historicalData c)(streamId \<mapsto> [])"
    by (simp_all add: addStream_def fresh_info_def Let_def)
  have "map_get (streamStats (addStream streamId md now c)) streamId
          = Some (fresh_info streamId md now)"
    unfolding registry by (simp add: map_get_set)
  moreover have "historicalData (addStream streamId md now c) streamId = Some []"
    unfolding histories by simp
  moreover have "map_get (streamStats (addStream streamId md now c)) k
                   = map_get (streamStats c) k
                 \<and> historicalData (addStream streamId md now c) k = historicalData c k"
    if "k \<noteq> streamId" for k
    unfolding registry histories using that by (simp add: map_get_set)
  moreover have "map fst (streamStats (addStream streamId md now c))
       = (if streamId \<in> set (map fst (streamStats c)) then map fst (streamStats c)
          else map fst (streamStats c) @ [streamId])"
    unfolding registry by (rule keys_map_set)
  ultimately show ?thesis by blast
qed

theorem addStream_replaces_witness:
  "map_get (streamStats (addStream ''view_0'' no_metadata 2000 registered_collector)) ''view_0''
     = Some (fresh_info ''view_0'' no_metadata 2000)
   \<and> historicalData (addStream ''view_0'' no_metadata 2000 registered_collector) ''view_0''
       = Some []
   \<and> historicalData (addStream ''view_0'' no_metadata 2000 registered_collector) ''view_1''
       = None
   \<and> map fst (streamStats (addStream ''view_0'' no_metadata 2000 registered_collector))
       = [''view_0'']"
proof -
  have other: "historicalData registered_collector ''view_1'' = None"
    by (simp add: registered_collector_def updateStreamStats_def addStream_def
        addToHistory_def new_collector_def Let_def)
  from addStream_replaces [of "''view_0''" no_metadata 2000 registered_collector]
  show ?thesis
    by (simp add: registered_facts other)
qed

subsection \<open>Removing a stream\<close>

text \<open>\<^verbatim>\<open>removeStream\<close> changes neither the histories nor the cache of recommendations.\<close>

lemma removeStream_keeps_history:
  "historicalData (removeStream streamId c) = historicalData c
   \<and> lastRecommendations (removeStream streamId c) = lastRecommendations c"
  by (simp add: removeStream_def split: option.splits)

lemma removeStream_absent:
  assumes "registry_ok c"
  shows "map_get (streamStats (removeStream streamId c)) streamId = None"
proof (cases "map_get (streamStats c) streamId")
  case None
  then show ?thesis by (simp add: removeStream_def)
next
  case (Some a)
  have "streamId \<notin> set (map fst (map_delete streamId (streamStats c)))"
    using assms by (intro absent_after_delete) (simp add: registry_ok_def)
  with Some show ?thesis
    by (simp add: removeStream_def map_get_None)
qed

text \<open>A second removal of the same id changes nothing.\<close>

lemma removeStream_idempotent:
  assumes "registry_ok c"
  shows "removeStream streamId (removeStream streamId c) = removeStream streamId c"
  using removeStream_absent [OF assms, of streamId]
  by (simp add: removeStream_def [of streamId "removeStream streamId c"])

lemma removeStream_others:
  "k \<noteq> streamId \<Longrightarrow> map_get (streamStats (removeStream streamId c)) k = map_get (streamStats c) k"
  by (simp add: removeStream_def map_get_delete_other split: option.splits)

text \<open>A removed stream is not among the active streams, from which every aggregate is
  computed.\<close>

lemma removed_not_active:
  assumes "registry_ok c" and "s \<in> set (getActiveStreams (removeStream streamId c))"
  shows "info_id s \<noteq> streamId"
proof
  assume eq: "info_id s = streamId"
  let ?c = "removeStream streamId c"
  have ok: "registry_ok ?c" using assms(1) by (rule registry_removeStream)
  from assms(2) obtain k where mem: "(k, s) \<in> set (streamStats ?c)"
    by (auto simp add: getActiveStreams_def)
  with ok have "info_id s = k" by (auto simp add: registry_ok_def)
  with eq mem have "streamId \<in> set (map fst (streamStats ?c))"
    by (auto simp add: image_iff intro!: bexI [of _ "(k, s)"])
  then show False
    using removeStream_absent [OF assms(1), of streamId] by (simp add: map_get_None)
qed

lemma balanced_ids:
  assumes "r \<in> set (generateBalancedRecommendations ctl now xs)"
  shows "\<exists>s \<in> set xs. r_streamId r = Some (info_id s)"
proof -
  from assms obtain n s r0 where
    "(n, s) \<in> set (enumerate 0 xs)"
    and "ctl_generateStreamRecommendation ctl now s (int n) = Some r0"
    and r: "r = r0\<lparr>r_type := ''balanced_optimization''\<rparr>"
    by (auto simp add: generateBalancedRecommendations_def List.map_filter_def)
  then have "s \<in> set xs" and "r_streamId r0 = Some (info_id s)"
    by (auto simp add: in_set_enumerate_eq ctl_generateStreamRecommendation_def stream_rec_def
        Let_def split: option.splits if_splits)
  with r show ?thesis by auto
qed

lemma other_ids:
  "r \<in> set (generateEmergencyRecommendations xs) \<Longrightarrow> r_streamId r = None"
  "r \<in> set (generateConservativeRecommendations xs) \<Longrightarrow> r_streamId r = None"
  "r \<in> set (generateEnhancementRecommendations xs) \<Longrightarrow> r_streamId r = None"
  "r \<in> set (generateLayoutOptimizations ctl mss layout) \<Longrightarrow> r_streamId r = None"
     apply (auto simp add: generateEmergencyRecommendations_def stream_rec_def Let_def)[1]
    apply (auto simp add: generateConservativeRecommendations_def stream_rec_def Let_def)[1]
   apply (auto simp add: generateEnhancementRecommendations_def stream_rec_def Let_def)[1]
  apply (auto simp add: generateLayoutOptimizations_def optimizeGrid4Layout_def
      optimizeGrid9Layout_def layout_rec_def Let_def split: option.splits if_splits)
  done

lemma bucket_ids:
  assumes "r \<in> set (immediate (populateRecommendations ctl now ty xs lo))
             \<union> set (gradual (populateRecommendations ctl now ty xs lo))
             \<union> set (fallback (populateRecommendations ctl now ty xs lo))"
      and "\<And>r. r \<in> set lo \<Longrightarrow> r_streamId r = None"
  shows "r_streamId r = None \<or> (\<exists>s \<in> set xs. r_streamId r = Some (info_id s))"
  using assms other_ids(1-3) [of r xs] balanced_ids [of r ctl now xs]
  by (cases ty) (auto simp add: populateRecommendations_def Let_def)

text \<open>No recommendation of a batch names a removed stream.\<close>

lemma removed_not_in_batch:
  assumes ok: "registry_ok c"
      and gen: "generateBatchRecommendations ctl (Some (removeStream streamId c)) now
                  = Inr (Some b, ctl')"
      and r: "r \<in> set (immediate (recommendations b)) \<union> set (gradual (recommendations b))
                \<union> set (fallback (recommendations b))"
  shows "r_streamId r \<noteq> Some streamId"
proof -
  let ?c = "removeStream streamId c"
  let ?xs = "getActiveStreams ?c"
  from batch_parts [OF gen]
  have b: "recommendations b = populateRecommendations ctl now (strategy_type (strategy b)) ?xs
          (generateLayoutOptimizations ctl (Some ?c) (currentLayout ctl))"
    by blast
  from bucket_ids [OF r [unfolded b] other_ids(4)]
  have "r_streamId r = None \<or> (\<exists>s \<in> set ?xs. r_streamId r = Some (info_id s))" .
  with removed_not_active [OF ok] show ?thesis by auto
qed

text \<open>
  Claim C10, evaluated on the code. The stream \<^verbatim>\<open>view_0\<close> is registered, reports one
  snapshot and is removed. Its entry in the registry is gone, but its history is still
  stored, and \<^verbatim>\<open>getStreamHistory\<close> still returns the snapshot: the history of a removed
  stream is not removed.
\<close>

theorem history_survives_removal:
  "map_get (streamStats (removeStream ''view_0'' registered_collector)) ''view_0'' = None
   \<and> historicalData (removeStream ''view_0'' registered_collector) ''view_0''
       = Some [first_snapshot]
   \<and> getStreamHistory (removeStream ''view_0'' registered_collector) ''view_0'' 30000 2000
       = [first_snapshot]"
  by (simp add: removeStream_def registered_collector_def updateStreamStats_def addStream_def
      addToHistory_def getStreamHistory_def new_collector_def first_snapshot_def Let_def
      sample_stats_def)

end
